theory Spec2Isabelle
  imports Complex_Main
begin

section \<open>Data model\<close>

text \<open>
  The embedding follows \<^verbatim>\<open>src/index.ts\<close> (class \<^verbatim>\<open>Scanner\<close>). A JavaScript
  \<^verbatim>\<open>number\<close> is a real number (\<^verbatim>\<open>NaN\<close> and the infinities are left out, and the
  statements keep away from a division by zero): \<^verbatim>\<open>Math.max\<close>, \<^verbatim>\<open>Math.min\<close>
  and \<^verbatim>\<open>Math.sqrt\<close> are \<open>max\<close>, \<open>min\<close> and \<open>sqrt\<close>. Where the code cuts a number to a
  whole number (under \<^verbatim>\<open>Math.floor\<close>, and in the size a canvas element keeps) the
  rounding of the double it cuts is modelled, see \<open>double\<close> below; the other sums,
  products and comparisons are exact. An optional numeric option is a \<open>real option\<close>
  (\<open>None\<close>: absent or \<^verbatim>\<open>undefined\<close>). A call that throws returns the error in place of
  its result; what the fields hold after an exception that nothing catches is not
  modelled.
\<close>

record Position =
  x :: real
  y :: real

text \<open>
  The two colour options are tested with the \<^verbatim>\<open>in\<close> operator, which sees a key that is
  present with the value \<^verbatim>\<open>undefined\<close>; their type keeps the three cases apart.
\<close>

datatype 'a optional = Missing | Undefined | Given 'a

type_synonym element = int

record ScannerOptions =
  opt_parent :: element
  opt_width :: "real option"
  opt_height :: "real option"
  opt_maxWidth :: "real option"
  opt_maxHeight :: "real option"
  opt_cornerRadius :: "real option"
  opt_cornerColor :: "string option"
  opt_cropBoxColor :: "string optional"
  opt_backdropColor :: "string optional"
  opt_minCropBoxWidth :: "real option"
  opt_minCropBoxHeight :: "real option"
  opt_cropBoxBorderWidth :: "real option"
  opt_cropBoxBorderColor :: "string option"
  opt_initialCorners :: "Position list option"

text \<open>
  The part of the browser the class talks to. The event types and the private handler
  methods the class uses are enumerated. A function object is a method of the class
  (\<open>Method\<close>) or the result of a call of \<^verbatim>\<open>.bind\<close> (\<open>Bound\<close>, with the number of the
  allocation: every call of \<^verbatim>\<open>.bind\<close> returns a new function object). An element is
  its number; the document keeps each element's children and event listeners.
\<close>

datatype event_type = touchstart | touchmove | touchend | mousedown | mousemove | mouseup

datatype handler = HandleTouchStart | HandleTouchMove | HandleTouchEnd | HandleMouseDown | HandleMouseMove

datatype callback = Method handler | Bound handler int

record DOM =
  next_node :: int
  next_function :: int
  children :: "element \<Rightarrow> element list"
  listeners :: "element \<Rightarrow> (event_type \<times> callback) list"

datatype error = Error string | TypeError | NotFoundError | IndexSizeError

text \<open>
  The private fields of an instance. The attributes of the two canvas elements the
  instance owns (\<^verbatim>\<open>#canvas.width\<close>, \<^verbatim>\<open>#canvas.style.width\<close>, \<^verbatim>\<open>#overlayCanvas.width\<close>,
  ...) are fields too. The width and height of a canvas element hold what the element
  keeps of the number assigned to them, see \<open>to_canvas_size\<close> below.
  \<^verbatim>\<open>#corners\<close> and \<^verbatim>\<open>#canvasBorderPoints\<close> are unassigned until
  an image has loaded; the empty list stands for that. \<open>redraws\<close> counts the completed
  calls of \<^verbatim>\<open>#drawCropBox\<close>.
\<close>

record Scanner =
  parent :: element
  relativePostionedDiv :: element
  canvas :: element
  overlayCanvas :: element
  img :: element
  width :: "real option"
  height :: "real option"
  maxWidth :: "real option"
  maxHeight :: "real option"
  canvasBorderPoints :: "Position list"
  cornerRadius :: real
  cornerColor :: string
  cropBoxColor :: "string option"
  backdropColor :: string
  minCropBoxWidth :: real
  minCropBoxHeight :: real
  move_active :: bool
  move_prevTouch :: Position
  corners :: "Position list"
  selectedCornerIndex :: int
  cropBoxBorderWidth :: real
  cropBoxBorderColor :: string
  initialCorners :: "Position list option"
  canvas_width :: real
  canvas_height :: real
  canvas_style_width :: "real option"
  canvas_style_height :: "real option"
  overlayCanvas_width :: real
  overlayCanvas_height :: real
  redraws :: nat

text \<open>
  What the class reads from its surroundings: \<^verbatim>\<open>window.devicePixelRatio\<close>, and the
  canvas context's \<^verbatim>\<open>isPointInPath\<close> (the path as the list of its vertices), which is
  not part of the repository and stays a parameter. A decoded image gives its natural
  size (whole numbers in a browser); where the class divides by it the statements take
  it to be positive.
\<close>

record env =
  devicePixelRatio :: real
  isPointInPath :: "Position list \<Rightarrow> real \<Rightarrow> real \<Rightarrow> bool"

record image =
  naturalWidth :: real
  naturalHeight :: real


section \<open>Numbers\<close>

text \<open>
  The double nearest to a real number: 53 significant bits, to the nearest value, a tie
  to the even one. A number \<open>r\<close> whose magnitude lies between 2 to the power \<open>p\<close> and 2 to
  the power \<open>p + 1\<close> is rounded to a multiple of 2 to the power \<open>p - 52\<close>. Overflow and
  the subnormal range (magnitudes from 2 to the power 1024, and below 2 to the power
  -1022) are not modelled.
\<close>

definition round_half_even :: "real \<Rightarrow> int" where
  "round_half_even r =
     (let f = \<lfloor>r\<rfloor> in
      if r - of_int f < 1 / 2 then f
      else if 1 / 2 < r - of_int f then f + 1
      else if even f then f else f + 1)"

definition double :: "real \<Rightarrow> real" where
  "double r =
     (if r = 0 then 0
      else of_int (round_half_even (r / 2 powr (of_int \<lfloor>log 2 \<bar>r\<bar>\<rfloor> - 52)))
             * 2 powr (of_int \<lfloor>log 2 \<bar>r\<bar>\<rfloor> - 52))"

text \<open>
  The \<^verbatim>\<open>width\<close> and \<^verbatim>\<open>height\<close> of a canvas element are of type \<^verbatim>\<open>unsigned long\<close>: an
  assigned number loses its fraction (towards zero) and is taken modulo 4294967296, and a
  result above 2147483647 is replaced by the default of the attribute (300 for the width,
  150 for the height).
\<close>

definition to_canvas_size :: "real \<Rightarrow> real \<Rightarrow> real" where
  "to_canvas_size dflt v =
     (let n = (if 0 \<le> v then \<lfloor>v\<rfloor> else - \<lfloor>- v\<rfloor>) mod 4294967296
      in if n \<le> 2147483647 then of_int n else dflt)"

section \<open>Browser primitives\<close>

definition createElement :: "DOM \<Rightarrow> element \<times> DOM" where
  "createElement d = (next_node d, d\<lparr>next_node := next_node d + 1\<rparr>)"

definition bind :: "handler \<Rightarrow> DOM \<Rightarrow> callback \<times> DOM" where
  "bind m d = (Bound m (next_function d), d\<lparr>next_function := next_function d + 1\<rparr>)"

definition appendChild :: "element \<Rightarrow> element \<Rightarrow> DOM \<Rightarrow> DOM" where
  "appendChild p c d =
     d\<lparr>children := (children d)(p := filter (\<lambda>e. e \<noteq> c) (children d p) @ [c])\<rparr>"

definition removeChild :: "element \<Rightarrow> element \<Rightarrow> DOM \<Rightarrow> error + DOM" where
  "removeChild p c d =
     (if c \<in> set (children d p)
      then Inr (d\<lparr>children := (children d)(p := filter (\<lambda>e. e \<noteq> c) (children d p))\<rparr>)
      else Inl NotFoundError)"

definition addEventListener :: "element \<Rightarrow> event_type \<Rightarrow> callback \<Rightarrow> DOM \<Rightarrow> DOM" where
  "addEventListener e ty cb d =
     (if (ty, cb) \<in> set (listeners d e) then d
      else d\<lparr>listeners := (listeners d)(e := listeners d e @ [(ty, cb)])\<rparr>)"

definition removeEventListener :: "element \<Rightarrow> event_type \<Rightarrow> callback \<Rightarrow> DOM \<Rightarrow> DOM" where
  "removeEventListener e ty cb d =
     d\<lparr>listeners := (listeners d)(e := filter (\<lambda>l. l \<noteq> (ty, cb)) (listeners d e))\<rparr>"

section \<open>Construction\<close>

text \<open>The truth value JavaScript gives an optional number: absent and zero are false.\<close>

definition truthy :: "real option \<Rightarrow> bool" where
  "truthy v = (case v of None \<Rightarrow> False | Some r \<Rightarrow> r \<noteq> 0)"

definition num :: "real option \<Rightarrow> real" where
  "num v = (case v of None \<Rightarrow> 0 | Some r \<Rightarrow> r)"

text \<open>\<^verbatim>\<open>"key" in options\<close>\<close>

definition has_key :: "'a optional \<Rightarrow> bool" where
  "has_key v = (v \<noteq> Missing)"

definition given_value :: "'a optional \<Rightarrow> 'a option" where
  "given_value v = (case v of Given a \<Rightarrow> Some a | _ \<Rightarrow> None)"

definition or_default :: "'a option \<Rightarrow> 'a \<Rightarrow> 'a" where
  "or_default v dflt = (case v of None \<Rightarrow> dflt | Some a \<Rightarrow> a)"

definition keep_truthy :: "real option \<Rightarrow> real option" where
  "keep_truthy v = (if truthy v then v else None)"

definition register_listeners :: "element \<Rightarrow> DOM \<Rightarrow> DOM" where
  "register_listeners ov d0 =
     (let (f1, d1) = bind HandleTouchStart d0;
          d1 = addEventListener ov touchstart f1 d1;
          (f2, d2) = bind HandleTouchMove d1;
          d2 = addEventListener ov touchmove f2 d2;
          (f3, d3) = bind HandleTouchEnd d2;
          d3 = addEventListener ov touchend f3 d3;
          (f4, d4) = bind HandleMouseDown d3;
          d4 = addEventListener ov mousedown f4 d4;
          (f5, d5) = bind HandleMouseMove d4;
          d5 = addEventListener ov mousemove f5 d5;
          (f6, d6) = bind HandleTouchEnd d5
      in addEventListener ov mouseup f6 d6)"

text \<open>
  \<^verbatim>\<open>new Scanner(options)\<close>: the outcome and the document afterwards. The three checks
  come before the first call into the document. A new canvas element is 300 by 150.
\<close>

definition constructor :: "DOM \<Rightarrow> ScannerOptions \<Rightarrow> (error + Scanner) \<times> DOM" where
  "constructor d options =
     (if has_key (opt_backdropColor options) \<and> has_key (opt_cropBoxColor options)
      then (Inl (Error ''Only one of backdropColor or cropBoxColor is to be set.''), d)
      else if truthy (opt_width options) \<and> truthy (opt_maxWidth options)
      then (Inl (Error ''Only one of width or maxWidth is to be set.''), d)
      else if truthy (opt_height options) \<and> truthy (opt_maxHeight options)
      then (Inl (Error ''Only one of height or maxHeight is to be set.''), d)
      else
        (let (im, d1) = createElement d;
             (cv, d2) = createElement d1;
             (dv, d3) = createElement d2;
             (ov, d4) = createElement d3;
             d5 = register_listeners ov d4;
             d6 = appendChild dv cv d5;
             d7 = appendChild dv ov d6;
             d8 = appendChild (opt_parent options) dv d7
         in (Inr \<lparr>parent = opt_parent options,
                   relativePostionedDiv = dv,
                   canvas = cv,
                   overlayCanvas = ov,
                   img = im,
                   width = keep_truthy (opt_width options),
                   height = keep_truthy (opt_height options),
                   maxWidth = keep_truthy (opt_maxWidth options),
                   maxHeight = keep_truthy (opt_maxHeight options),
                   canvasBorderPoints = [],
                   cornerRadius = or_default (opt_cornerRadius options) 12,
                   cornerColor = or_default (opt_cornerColor options) ''lightgreen'',
                   cropBoxColor = given_value (opt_cropBoxColor options),
                   backdropColor =
                     or_default (given_value (opt_backdropColor options)) ''rgba(0, 0, 0, 0.5)'',
                   minCropBoxWidth = or_default (opt_minCropBoxWidth options) 100,
                   minCropBoxHeight = or_default (opt_minCropBoxHeight options) 100,
                   move_active = False,
                   move_prevTouch = \<lparr>x = 0, y = 0\<rparr>,
                   corners = [],
                   selectedCornerIndex = - 1,
                   cropBoxBorderWidth = or_default (opt_cropBoxBorderWidth options) 1,
                   cropBoxBorderColor =
                     or_default (opt_cropBoxBorderColor options) ''rgba(255, 255, 255)'',
                   initialCorners = opt_initialCorners options,
                   canvas_width = 300,
                   canvas_height = 150,
                   canvas_style_width = None,
                   canvas_style_height = None,
                   overlayCanvas_width = 300,
                   overlayCanvas_height = 150,
                   redraws = 0\<rparr>, d8)))"

text \<open>
  \<^verbatim>\<open>destroy()\<close> hands \<^verbatim>\<open>removeEventListener\<close> the methods themselves
  (\<^verbatim>\<open>this.#handleTouchStart\<close>, ...), then removes the subtree from the parent.
\<close>

definition destroy :: "Scanner \<Rightarrow> DOM \<Rightarrow> error + DOM" where
  "destroy s d0 =
     (let ov = overlayCanvas s;
          d1 = removeEventListener ov touchstart (Method HandleTouchStart) d0;
          d2 = removeEventListener ov touchmove (Method HandleTouchMove) d1;
          d3 = removeEventListener ov touchend (Method HandleTouchEnd) d2;
          d4 = removeEventListener ov mousedown (Method HandleMouseDown) d3;
          d5 = removeEventListener ov mousemove (Method HandleMouseMove) d4;
          d6 = removeEventListener ov mouseup (Method HandleTouchEnd) d5
      in removeChild (parent s) (relativePostionedDiv s) d6)"

section \<open>Loading an image\<close>

text \<open>
  \<^verbatim>\<open>#initializeCanvasDimensions\<close>: four cases on which of \<^verbatim>\<open>#width\<close> and \<^verbatim>\<open>#height\<close>
  are truthy give the size \<open>(cw, ch)\<close> (\<^verbatim>\<open>x\<close> and \<^verbatim>\<open>y\<close> in the first two cases); the
  product under \<^verbatim>\<open>Math.floor\<close> is the double of the product of the double of the
  quotient. Every case assigns the size to the canvas and builds the border polygon from
  \<open>(cw, ch)\<close> itself in the same way. Then the style size and the overlay size are computed
  from the size read back from the canvas, and the canvas size is set to the size read
  back times the device pixel ratio. (The warning of the fourth case writes to the console
  only.)
\<close>

definition resolve_size :: "image \<Rightarrow> Scanner \<Rightarrow> real \<times> real" where
  "resolve_size im s =
     (if truthy (width s) \<and> \<not> truthy (height s) then
        (let cw = num (width s);
             ch = real_of_int \<lfloor>double (double (num (width s) / naturalWidth im) * naturalHeight im)\<rfloor>
         in if truthy (maxHeight s) \<and> ch > num (maxHeight s)
            then (real_of_int
                    \<lfloor>double (double (num (maxHeight s) / naturalHeight im) * naturalWidth im)\<rfloor>,
                  num (maxHeight s))
            else (cw, ch))
      else if truthy (height s) \<and> \<not> truthy (width s) then
        (let cw = real_of_int
                    \<lfloor>double (double (num (height s) / naturalHeight im) * naturalWidth im)\<rfloor>;
             ch = num (height s)
         in if truthy (maxWidth s) \<and> cw > num (maxWidth s)
            then (num (maxWidth s),
                  real_of_int
                    \<lfloor>double (double (num (maxWidth s) / naturalWidth im) * naturalHeight im)\<rfloor>)
            else (cw, ch))
      else if truthy (width s) \<and> truthy (height s) then (num (width s), num (height s))
      else (naturalWidth im, naturalHeight im))"

definition border_polygon :: "real \<Rightarrow> real \<Rightarrow> real \<Rightarrow> Position list" where
  "border_polygon r cw ch =
     [\<lparr>x = r, y = r\<rparr>, \<lparr>x = cw + r, y = r\<rparr>, \<lparr>x = cw + r, y = ch + r\<rparr>, \<lparr>x = r, y = ch + r\<rparr>]"

definition initializeCanvasDimensions :: "env \<Rightarrow> image \<Rightarrow> Scanner \<Rightarrow> Scanner" where
  "initializeCanvasDimensions e im s =
     (let (cw, ch) = resolve_size im s;
          w = to_canvas_size 300 cw;
          h = to_canvas_size 150 ch
      in s\<lparr>canvasBorderPoints := border_polygon (cornerRadius s) cw ch,
           canvas_style_width := Some w,
           canvas_style_height := Some h,
           overlayCanvas_width := to_canvas_size 300 (double (w + 2 * cornerRadius s)),
           overlayCanvas_height := to_canvas_size 150 (double (h + 2 * cornerRadius s)),
           canvas_width := to_canvas_size 300 (double (w * devicePixelRatio e)),
           canvas_height := to_canvas_size 150 (double (h * devicePixelRatio e))\<rparr>)"

definition initializeCorners :: "env \<Rightarrow> Position list option \<Rightarrow> Scanner \<Rightarrow> Scanner" where
  "initializeCorners e ics s =
     (case ics of
        Some cs \<Rightarrow>
          s\<lparr>corners :=
              map (\<lambda>corner.
                     \<lparr>x = ((x corner / 100) * canvas_width s) / devicePixelRatio e + cornerRadius s,
                      y = ((y corner / 100) * canvas_height s) / devicePixelRatio e + cornerRadius s\<rparr>)
                  cs\<rparr>
      | None \<Rightarrow>
          s\<lparr>corners :=
              [\<lparr>x = cornerRadius s, y = cornerRadius s\<rparr>,
               \<lparr>x = canvas_width s / devicePixelRatio e + cornerRadius s, y = cornerRadius s\<rparr>,
               \<lparr>x = canvas_width s / devicePixelRatio e + cornerRadius s,
                y = canvas_height s / devicePixelRatio e + cornerRadius s\<rparr>,
               \<lparr>x = cornerRadius s,
                y = canvas_height s / devicePixelRatio e + cornerRadius s\<rparr>]\<rparr>)"

text \<open>
  \<^verbatim>\<open>#drawCropBox\<close> reads \<^verbatim>\<open>#corners[0]\<close>, which throws on an empty list, and
  draws a circle of radius \<^verbatim>\<open>#cornerRadius\<close> at every corner with \<^verbatim>\<open>arc\<close>, which
  throws an \<^verbatim>\<open>IndexSizeError\<close> when the radius is negative; of its drawing only the
  count is kept. \<^verbatim>\<open>#drawImage\<close> changes pixels only.
\<close>

definition drawCropBox :: "Scanner \<Rightarrow> error + Scanner" where
  "drawCropBox s =
     (if corners s = [] then Inl TypeError
      else if cornerRadius s < 0 then Inl IndexSizeError
      else Inr (s\<lparr>redraws := redraws s + 1\<rparr>))"

text \<open>The \<^verbatim>\<open>onload\<close> callback that \<^verbatim>\<open>loadImg\<close> installs.\<close>

definition onload :: "env \<Rightarrow> image \<Rightarrow> Scanner \<Rightarrow> error + Scanner" where
  "onload e im s =
     drawCropBox (initializeCorners e (initialCorners s) (initializeCanvasDimensions e im s))"


section \<open>Pointer events\<close>

text \<open>
  The handlers \<^verbatim>\<open>#handleTouchStart\<close>, \<^verbatim>\<open>#handleMouseDown\<close>, \<^verbatim>\<open>#handleTouchMove\<close> and
  \<^verbatim>\<open>#handleMouseMove\<close> subtract the canvas's position from the pointer's and call
  \<^verbatim>\<open>#afterTouchStart\<close> or \<^verbatim>\<open>#afterTouchMove\<close>, which are modelled. Reading a field of
  \<^verbatim>\<open>corners[i]\<close> throws a \<^verbatim>\<open>TypeError\<close> when the list has no entry \<open>i\<close>.
\<close>

definition isTouchInsideCropBox :: "env \<Rightarrow> Scanner \<Rightarrow> real \<Rightarrow> real \<Rightarrow> error + bool" where
  "isTouchInsideCropBox e s touchX touchY =
     (if length (corners s) < 4 then Inl TypeError
      else Inr (isPointInPath e
             [\<lparr>x = x (corners s ! 0) + 30, y = y (corners s ! 0) + 30\<rparr>,
              \<lparr>x = x (corners s ! 1) - 30, y = y (corners s ! 1) + 30\<rparr>,
              \<lparr>x = x (corners s ! 2) - 30, y = y (corners s ! 2) - 30\<rparr>,
              \<lparr>x = x (corners s ! 3) + 30, y = y (corners s ! 3) - 30\<rparr>]
             touchX touchY))"

fun first_corner_within :: "real \<Rightarrow> real \<Rightarrow> real \<Rightarrow> int \<Rightarrow> Position list \<Rightarrow> int" where
  "first_corner_within r mouseX mouseY i [] = - 1"
| "first_corner_within r mouseX mouseY i (corner # rest) =
     (if sqrt ((mouseX - x corner)\<^sup>2 + (mouseY - y corner)\<^sup>2) \<le> r then i
      else first_corner_within r mouseX mouseY (i + 1) rest)"

definition getSelectedCornerIndex :: "Scanner \<Rightarrow> real \<Rightarrow> real \<Rightarrow> int" where
  "getSelectedCornerIndex s mouseX mouseY =
     first_corner_within (cornerRadius s) mouseX mouseY 0 (corners s)"

definition afterTouchStart :: "env \<Rightarrow> Scanner \<Rightarrow> real \<Rightarrow> real \<Rightarrow> error + Scanner" where
  "afterTouchStart e s touchX touchY =
     (case isTouchInsideCropBox e s touchX touchY of
        Inl err \<Rightarrow> Inl err
      | Inr inside \<Rightarrow>
          if inside \<and> \<not> move_active s
          then Inr (s\<lparr>move_active := True, move_prevTouch := \<lparr>x = touchX, y = touchY\<rparr>\<rparr>)
          else Inr (s\<lparr>selectedCornerIndex := getSelectedCornerIndex s touchX touchY\<rparr>))"

definition on_segment :: "Position \<Rightarrow> Position \<Rightarrow> Position \<Rightarrow> bool" where
  "on_segment point borderPoint1 borderPoint2 =
     ((y point - y borderPoint1) * (x borderPoint2 - x borderPoint1) =
        (y borderPoint2 - y borderPoint1) * (x point - x borderPoint1) \<and>
      x point \<ge> min (x borderPoint1) (x borderPoint2) \<and>
      x point \<le> max (x borderPoint1) (x borderPoint2) \<and>
      y point \<ge> min (y borderPoint1) (y borderPoint2) \<and>
      y point \<le> max (y borderPoint1) (y borderPoint2))"

definition isPointOnBorder :: "Position \<Rightarrow> Position list \<Rightarrow> bool" where
  "isPointOnBorder point borderPoints =
     list_ex (\<lambda>i. on_segment point (borderPoints ! i)
                    (borderPoints ! ((i + 1) mod length borderPoints)))
             [0..<length borderPoints]"

text \<open>The position the two move operations store: the argument held into the overlay.\<close>

definition clamp_to_overlay :: "Scanner \<Rightarrow> real \<Rightarrow> real \<Rightarrow> Position" where
  "clamp_to_overlay s px py =
     \<lparr>x = max (cornerRadius s) (min px (overlayCanvas_width s - cornerRadius s)),
      y = max (cornerRadius s) (min py (overlayCanvas_height s - cornerRadius s))\<rparr>"

definition translatedCorners :: "Scanner \<Rightarrow> real \<Rightarrow> real \<Rightarrow> Position list" where
  "translatedCorners s dx dy = map (\<lambda>c. clamp_to_overlay s (x c + dx) (y c + dy)) (corners s)"

definition moveCropBox :: "Scanner \<Rightarrow> real \<Rightarrow> real \<Rightarrow> error + Scanner" where
  "moveCropBox s touchX touchY =
     (let dx = touchX - x (move_prevTouch s);
          dy = touchY - y (move_prevTouch s);
          tc = translatedCorners s dx dy;
          movable = \<not> list_ex (\<lambda>c. isPointOnBorder c (canvasBorderPoints s)) tc;
          s1 = (if movable then s\<lparr>corners := tc\<rparr> else s)
      in drawCropBox (s1\<lparr>move_prevTouch := \<lparr>x = touchX, y = touchY\<rparr>\<rparr>))"

text \<open>
  \<^verbatim>\<open>#cropBoxIsTooSmall\<close> reads \<^verbatim>\<open>corners[0]\<close> to \<^verbatim>\<open>corners[3]\<close> from left to
  right and stops at the first comparison that holds: on a list of two or three corners
  it returns when the first comparison holds and throws otherwise.
\<close>

definition cropBoxIsTooSmall :: "Scanner \<Rightarrow> Position list \<Rightarrow> error + bool" where
  "cropBoxIsTooSmall s cs =
     (if length cs < 2 then Inl TypeError
      else if x (cs ! 1) - x (cs ! 0) < minCropBoxWidth s then Inr True
      else if length cs < 4 then Inl TypeError
      else Inr (x (cs ! 2) - x (cs ! 3) < minCropBoxWidth s \<or>
                y (cs ! 3) - y (cs ! 0) < minCropBoxHeight s \<or>
                y (cs ! 2) - y (cs ! 1) < minCropBoxHeight s))"

text \<open>The corner set \<^verbatim>\<open>#afterTouchMove\<close> tests: the selected corner replaced by the pointer.\<close>

definition candidate_points :: "Scanner \<Rightarrow> real \<Rightarrow> real \<Rightarrow> Position list" where
  "candidate_points s touchX touchY =
     map (\<lambda>i. if int i = selectedCornerIndex s then \<lparr>x = touchX, y = touchY\<rparr> else corners s ! i)
         [0..<length (corners s)]"

definition afterTouchMove :: "Scanner \<Rightarrow> real \<Rightarrow> real \<Rightarrow> error + Scanner" where
  "afterTouchMove s touchX touchY =
     (if move_active s then moveCropBox s touchX touchY
      else if selectedCornerIndex s \<noteq> - 1 then
        (case cropBoxIsTooSmall s (candidate_points s touchX touchY) of
           Inl err \<Rightarrow> Inl err
         | Inr True \<Rightarrow> Inr s
         | Inr False \<Rightarrow>
             if selectedCornerIndex s < 0 \<or> int (length (corners s)) \<le> selectedCornerIndex s
             then Inl TypeError
             else drawCropBox
                    (s\<lparr>corners := (corners s)[nat (selectedCornerIndex s) :=
                                                clamp_to_overlay s touchX touchY]\<rparr>))
      else Inr s)"

definition handleTouchEnd :: "Scanner \<Rightarrow> Scanner" where
  "handleTouchEnd s = s\<lparr>move_active := False, selectedCornerIndex := - 1\<rparr>"

section \<open>Cropping\<close>

text \<open>
  \<^verbatim>\<open>#applyPerspectiveTransform\<close> first reads the pixels of the canvas with
  \<^verbatim>\<open>getImageData\<close>, which throws an \<^verbatim>\<open>IndexSizeError\<close> when the width or the height
  it is given is zero. Then it computes the output size and the two point lists, hands
  them to OpenCV (\<^verbatim>\<open>getPerspectiveTransform\<close>, \<^verbatim>\<open>warpPerspective\<close>) and shows the
  result on a new canvas element. The request to OpenCV is what is modelled: the size
  \<open>dsize\<close>, and the flat coordinate lists \<open>srcTri\<close> and \<open>dstTri\<close>, whose points correspond
  in order.
\<close>

record warp_request =
  dsize_width :: real
  dsize_height :: real
  srcTri :: "real list"
  dstTri :: "real list"
  tempCanvas :: element

definition applyPerspectiveTransform ::
  "env \<Rightarrow> Scanner \<Rightarrow> Position list \<Rightarrow> DOM \<Rightarrow> (error + warp_request) \<times> DOM" where
  "applyPerspectiveTransform e s points d =
     (if canvas_width s = 0 \<or> canvas_height s = 0 then (Inl IndexSizeError, d)
      else if length points < 4 then (Inl TypeError, d)
      else
        (let w = max (sqrt ((x (points ! 0) - x (points ! 1))\<^sup>2 + (y (points ! 0) - y (points ! 1))\<^sup>2))
                     (sqrt ((x (points ! 2) - x (points ! 3))\<^sup>2 + (y (points ! 2) - y (points ! 3))\<^sup>2))
                 * devicePixelRatio e;
             h = max (sqrt ((x (points ! 1) - x (points ! 2))\<^sup>2 + (y (points ! 1) - y (points ! 2))\<^sup>2))
                     (sqrt ((x (points ! 3) - x (points ! 0))\<^sup>2 + (y (points ! 3) - y (points ! 0))\<^sup>2))
                 * devicePixelRatio e;
             src = concat (map (\<lambda>point.
                      [((x point - cornerRadius s) / (canvas_width s / devicePixelRatio e))
                         * canvas_width s,
                       ((y point - cornerRadius s) / (canvas_height s / devicePixelRatio e))
                         * canvas_height s]) points);
             dst = [0, 0, w, 0, w, h, 0, h];
             (tc, d1) = createElement d
         in (Inr \<lparr>dsize_width = w, dsize_height = h, srcTri = src, dstTri = dst,
                   tempCanvas = tc\<rparr>, d1)))"

text \<open>
  The four public operations that read the box: each returns its value, the instance
  and the document afterwards. The encodings (\<^verbatim>\<open>toDataURL\<close>, \<^verbatim>\<open>toBlob\<close>, \<^verbatim>\<open>new File\<close>)
  are the browser's; the value kept is the request they encode.
\<close>

definition crop :: "env \<Rightarrow> Scanner \<Rightarrow> DOM \<Rightarrow> (error + warp_request) \<times> Scanner \<times> DOM" where
  "crop e s d = (let (r, d1) = applyPerspectiveTransform e s (corners s) d in (r, s, d1))"

definition getBlob :: "env \<Rightarrow> Scanner \<Rightarrow> DOM \<Rightarrow> (error + warp_request) \<times> Scanner \<times> DOM" where
  "getBlob e s d = (let (r, d1) = applyPerspectiveTransform e s (corners s) d in (r, s, d1))"

definition getFile ::
  "env \<Rightarrow> Scanner \<Rightarrow> DOM \<Rightarrow> (error + string \<times> warp_request) \<times> Scanner \<times> DOM" where
  "getFile e s d =
     (let (r, d1) = applyPerspectiveTransform e s (corners s) d
      in (case r of Inl err \<Rightarrow> (Inl err, s, d1)
                  | Inr c \<Rightarrow> (Inr (''cropped-image.png'', c), s, d1)))"

definition getCanvas :: "Scanner \<Rightarrow> DOM \<Rightarrow> element \<times> Scanner \<times> DOM" where
  "getCanvas s d = (canvas s, s, d)"

section \<open>Properties of the crop box\<close>

text \<open>
  The canvas boundary is the rectangle spanned by the first and third point of
  \<^verbatim>\<open>#canvasBorderPoints\<close>. A state is \<open>framed\<close> when the border polygon is the rectangle
  that lies \<^verbatim>\<open>#cornerRadius\<close> inside the overlay canvas, so that the limits the two move
  operations hold a position to are the edges of the boundary.
  \<^verbatim>\<open>#initializeCanvasDimensions\<close> leaves the state so when the size \<open>(cw, ch)\<close> and twice
  the corner radius are whole numbers.
\<close>

definition in_boundary :: "Scanner \<Rightarrow> Position \<Rightarrow> bool" where
  "in_boundary s p =
     (case canvasBorderPoints s of
        [a, b, c, d] \<Rightarrow> x a \<le> x p \<and> x p \<le> x c \<and> y a \<le> y p \<and> y p \<le> y c
      | _ \<Rightarrow> False)"

definition strictly_inside :: "Scanner \<Rightarrow> Position \<Rightarrow> bool" where
  "strictly_inside s p =
     (case canvasBorderPoints s of
        [a, b, c, d] \<Rightarrow> x a < x p \<and> x p < x c \<and> y a < y p \<and> y p < y c
      | _ \<Rightarrow> False)"

definition framed :: "Scanner \<Rightarrow> bool" where
  "framed s = (canvasBorderPoints s =
      border_polygon (cornerRadius s) (overlayCanvas_width s - 2 * cornerRadius s)
         (overlayCanvas_height s - 2 * cornerRadius s))"

text \<open>
  The fields a pointer event never writes, and the number of corners.
\<close>

definition same_canvas :: "Scanner \<Rightarrow> Scanner \<Rightarrow> bool" where
  "same_canvas s s' =
     (canvasBorderPoints s' = canvasBorderPoints s \<and> cornerRadius s' = cornerRadius s \<and>
      overlayCanvas_width s' = overlayCanvas_width s \<and>
      overlayCanvas_height s' = overlayCanvas_height s \<and>
      minCropBoxWidth s' = minCropBoxWidth s \<and> minCropBoxHeight s' = minCropBoxHeight s \<and>
      length (corners s') = length (corners s))"



text \<open>
  A pointer position that the two move operations store as it is: it lies in the overlay
  canvas, at least \<^verbatim>\<open>#cornerRadius\<close> from its sides.
\<close>

definition within_limits :: "Scanner \<Rightarrow> real \<Rightarrow> real \<Rightarrow> bool" where
  "within_limits s px py =
     (cornerRadius s \<le> px \<and> px \<le> overlayCanvas_width s - cornerRadius s \<and>
      cornerRadius s \<le> py \<and> py \<le> overlayCanvas_height s - cornerRadius s)"

text \<open>
  A corner moved by \<open>(dx, dy)\<close>.
\<close>

definition translate :: "real \<Rightarrow> real \<Rightarrow> Position \<Rightarrow> Position" where
  "translate dx dy c = \<lparr>x = x c + dx, y = y c + dy\<rparr>"


text \<open>
  The states reached from \<open>s0\<close> by pointer-down, pointer-move and pointer-up events that
  return normally.
\<close>

inductive reachable :: "env \<Rightarrow> Scanner \<Rightarrow> Scanner \<Rightarrow> bool" for e :: env and s0 :: Scanner where
  start: "reachable e s0 s0"
| touch_start: "reachable e s0 s \<Longrightarrow> afterTouchStart e s tx ty = Inr s' \<Longrightarrow> reachable e s0 s'"
| touch_move: "reachable e s0 s \<Longrightarrow> afterTouchMove s tx ty = Inr s' \<Longrightarrow> reachable e s0 s'"
| touch_end: "reachable e s0 s \<Longrightarrow> reachable e s0 (handleTouchEnd s)"

section \<open>Resolved size, crop request and configuration\<close>

text \<open>
  The canvas is shown \<open>cw\<close> by \<open>ch\<close> pixels, and its backing store is that size times the
  device pixel ratio.
\<close>

definition canvas_size_is :: "env \<Rightarrow> Scanner \<Rightarrow> real \<Rightarrow> real \<Rightarrow> bool" where
  "canvas_size_is e s cw ch =
     (canvas_style_width s = Some cw \<and> canvas_style_height s = Some ch \<and>
      canvas_width s = cw * devicePixelRatio e \<and> canvas_height s = ch * devicePixelRatio e)"

text \<open>
  The Euclidean length of the edge from \<open>a\<close> to \<open>b\<close>.
\<close>

definition edge_length :: "Position \<Rightarrow> Position \<Rightarrow> real" where
  "edge_length a b = sqrt ((x b - x a)\<^sup>2 + (y b - y a)\<^sup>2)"

text \<open>
  A display-space point in backing-store coordinates, as \<^verbatim>\<open>#applyPerspectiveTransform\<close>
  computes it for \<open>srcTri\<close>.
\<close>

definition to_backing :: "env \<Rightarrow> Scanner \<Rightarrow> Position \<Rightarrow> real \<times> real" where
  "to_backing e s p =
     (((x p - cornerRadius s) / (canvas_width s / devicePixelRatio e)) * canvas_width s,
      ((y p - cornerRadius s) / (canvas_height s / devicePixelRatio e)) * canvas_height s)"

text \<open>
  OpenCV reads a flat coordinate list as points, and pairs the points of the source and of
  the destination list in order.
\<close>

fun point_pairs :: "real list \<Rightarrow> (real \<times> real) list" where
  "point_pairs (a # b # rest) = (a, b) # point_pairs rest"
| "point_pairs rest = []"

definition correspondence :: "warp_request \<Rightarrow> ((real \<times> real) \<times> (real \<times> real)) list" where
  "correspondence r = zip (point_pairs (srcTri r)) (point_pairs (dstTri r))"


text \<open>
  The six listeners the constructor registers, when the first \<^verbatim>\<open>.bind\<close> is allocation
  \<open>k\<close>.
\<close>

definition registered :: "int \<Rightarrow> (event_type \<times> callback) list" where
  "registered k =
     [(touchstart, Bound HandleTouchStart k),
      (touchmove, Bound HandleTouchMove (k + 1)),
      (touchend, Bound HandleTouchEnd (k + 2)),
      (mousedown, Bound HandleMouseDown (k + 3)),
      (mousemove, Bound HandleMouseMove (k + 4)),
      (mouseup, Bound HandleTouchEnd (k + 5))]"

section \<open>Example inputs\<close>

text \<open>
  The inputs of the examples below. In them the device pixel ratio is 2 (2.5 in the last
  one) and the hit test
  \<^verbatim>\<open>isPointInPath\<close> is the test against the bounding box of the path. It is used on
  two kinds of input only: a rectangle with sides along the axes, where it is exact, and a
  point that lies above or left of every vertex of the path, which is outside the path
  whatever its shape. The document starts with the parent element 0 and nothing else.
\<close>

definition bounding_box_hit :: "Position list \<Rightarrow> real \<Rightarrow> real \<Rightarrow> bool" where
  "bounding_box_hit path px py =
     (list_ex (\<lambda>p. x p \<le> px) path \<and> list_ex (\<lambda>p. px \<le> x p) path \<and>
      list_ex (\<lambda>p. y p \<le> py) path \<and> list_ex (\<lambda>p. py \<le> y p) path)"

definition demo_env :: env where
  "demo_env = \<lparr>devicePixelRatio = 2, isPointInPath = bounding_box_hit\<rparr>"

definition dom0 :: DOM where
  "dom0 = \<lparr>next_node = 1, next_function = 0, children = (\<lambda>e. []), listeners = (\<lambda>e. [])\<rparr>"

definition no_options :: ScannerOptions where
  "no_options =
     \<lparr>opt_parent = 0, opt_width = None, opt_height = None, opt_maxWidth = None,
      opt_maxHeight = None, opt_cornerRadius = None, opt_cornerColor = None,
      opt_cropBoxColor = Missing, opt_backdropColor = Missing, opt_minCropBoxWidth = None,
      opt_minCropBoxHeight = None, opt_cropBoxBorderWidth = None,
      opt_cropBoxBorderColor = None, opt_initialCorners = None\<rparr>"

text \<open>
  The instance and the document that \<^verbatim>\<open>new Scanner({parent})\<close> gives, and the document
  after \<^verbatim>\<open>destroy()\<close>.
\<close>

definition fresh :: Scanner where
  "fresh =
     \<lparr>parent = 0, relativePostionedDiv = 3, canvas = 2, overlayCanvas = 4, img = 1,
      width = None, height = None, maxWidth = None, maxHeight = None,
      canvasBorderPoints = [], cornerRadius = 12, cornerColor = ''lightgreen'',
      cropBoxColor = None, backdropColor = ''rgba(0, 0, 0, 0.5)'',
      minCropBoxWidth = 100, minCropBoxHeight = 100, move_active = False,
      move_prevTouch = \<lparr>x = 0, y = 0\<rparr>, corners = [], selectedCornerIndex = - 1,
      cropBoxBorderWidth = 1, cropBoxBorderColor = ''rgba(255, 255, 255)'',
      initialCorners = None, canvas_width = 300, canvas_height = 150,
      canvas_style_width = None, canvas_style_height = None,
      overlayCanvas_width = 300, overlayCanvas_height = 150, redraws = 0\<rparr>"

definition dom1 :: DOM where
  "dom1 = \<lparr>next_node = 5, next_function = 6,
           children = (\<lambda>e. [])(3 := [2, 4], 0 := [3]),
           listeners = (\<lambda>e. [])(4 := registered 0)\<rparr>"

definition dom2 :: DOM where
  "dom2 = \<lparr>next_node = 5, next_function = 6,
           children = (\<lambda>e. [])(3 := [2, 4], 0 := []),
           listeners = (\<lambda>e. [])(4 := registered 0)\<rparr>"

text \<open>
  Three option sets: both colours given, width and maxWidth given, and width 0 with a
  maxWidth.
\<close>

definition both_colours :: ScannerOptions where
  "both_colours = no_options\<lparr>opt_cropBoxColor := Given ''red'', opt_backdropColor := Given ''blue''\<rparr>"

definition both_widths :: ScannerOptions where
  "both_widths = no_options\<lparr>opt_width := Some 400, opt_maxWidth := Some 500\<rparr>"

definition zero_width :: ScannerOptions where
  "zero_width = no_options\<lparr>opt_width := Some 0, opt_maxWidth := Some 500\<rparr>"

text \<open>
  The running example: \<^verbatim>\<open>width: 400\<close> and initial corners at 25 and 75 percent, an image
  of 800 by 600. The states are the instance after construction, after the load, after a
  pointer-down inside the box at (212, 162), after a pointer-move to (222, 172), after a
  further pointer-move to (1222, 172), and after loading the image again.
\<close>

definition demo_corners :: "Position list" where
  "demo_corners = [\<lparr>x = 25, y = 25\<rparr>, \<lparr>x = 75, y = 25\<rparr>, \<lparr>x = 75, y = 75\<rparr>, \<lparr>x = 25, y = 75\<rparr>]"

definition demo_options :: ScannerOptions where
  "demo_options = no_options\<lparr>opt_width := Some 400, opt_initialCorners := Some demo_corners\<rparr>"

definition demo_configured :: Scanner where
  "demo_configured = fresh\<lparr>width := Some 400, initialCorners := Some demo_corners\<rparr>"

definition demo_image :: image where
  "demo_image = \<lparr>naturalWidth = 800, naturalHeight = 600\<rparr>"

definition demo_loaded :: Scanner where
  "demo_loaded = demo_configured
     \<lparr>canvasBorderPoints := [\<lparr>x = 12, y = 12\<rparr>, \<lparr>x = 412, y = 12\<rparr>, \<lparr>x = 412, y = 312\<rparr>, \<lparr>x = 12, y = 312\<rparr>],
      corners := [\<lparr>x = 112, y = 87\<rparr>, \<lparr>x = 312, y = 87\<rparr>, \<lparr>x = 312, y = 237\<rparr>, \<lparr>x = 112, y = 237\<rparr>],
      canvas_width := 800, canvas_height := 600,
      canvas_style_width := Some 400, canvas_style_height := Some 300,
      overlayCanvas_width := 424, overlayCanvas_height := 324, redraws := 1\<rparr>"

definition demo_picked :: Scanner where
  "demo_picked = demo_loaded\<lparr>move_active := True, move_prevTouch := \<lparr>x = 212, y = 162\<rparr>\<rparr>"

definition demo_moved :: Scanner where
  "demo_moved = demo_picked
     \<lparr>corners := [\<lparr>x = 122, y = 97\<rparr>, \<lparr>x = 322, y = 97\<rparr>, \<lparr>x = 322, y = 247\<rparr>, \<lparr>x = 122, y = 247\<rparr>],
      move_prevTouch := \<lparr>x = 222, y = 172\<rparr>, redraws := 2\<rparr>"



text \<open>
  From the loaded state: a pointer-down on the top-left corner at (112, 87), then a
  pointer-move to (150, 100); and a pointer-down on the corner followed, with no release
  in between, by one inside the box at (212, 162) and a pointer-move to (213, 162).
\<close>

definition demo_cornered :: Scanner where
  "demo_cornered = demo_loaded\<lparr>selectedCornerIndex := 0\<rparr>"

definition demo_reshaped :: Scanner where
  "demo_reshaped = demo_cornered
     \<lparr>corners := [\<lparr>x = 150, y = 100\<rparr>, \<lparr>x = 312, y = 87\<rparr>, \<lparr>x = 312, y = 237\<rparr>, \<lparr>x = 112, y = 237\<rparr>],
      redraws := 2\<rparr>"

definition demo_both :: Scanner where
  "demo_both = demo_cornered\<lparr>move_active := True, move_prevTouch := \<lparr>x = 212, y = 162\<rparr>\<rparr>"

definition demo_shifted :: Scanner where
  "demo_shifted = demo_both
     \<lparr>corners := [\<lparr>x = 113, y = 87\<rparr>, \<lparr>x = 313, y = 87\<rparr>, \<lparr>x = 313, y = 237\<rparr>, \<lparr>x = 113, y = 237\<rparr>],
      move_prevTouch := \<lparr>x = 213, y = 162\<rparr>, redraws := 2\<rparr>"



text \<open>
  Initial corners whose top edge is 5 percent of the width: the instance after
  construction, after the load, after a pointer-down on the top-right corner at (392, 12)
  and after a pointer-move to (1000, 12).
\<close>

definition narrow_corners :: "Position list" where
  "narrow_corners = [\<lparr>x = 90, y = 0\<rparr>, \<lparr>x = 95, y = 0\<rparr>, \<lparr>x = 100, y = 100\<rparr>, \<lparr>x = 0, y = 100\<rparr>]"

definition narrow_options :: ScannerOptions where
  "narrow_options = no_options\<lparr>opt_width := Some 400, opt_initialCorners := Some narrow_corners\<rparr>"

definition narrow_configured :: Scanner where
  "narrow_configured = fresh\<lparr>width := Some 400, initialCorners := Some narrow_corners\<rparr>"

definition narrow_loaded :: Scanner where
  "narrow_loaded = narrow_configured
     \<lparr>canvasBorderPoints := [\<lparr>x = 12, y = 12\<rparr>, \<lparr>x = 412, y = 12\<rparr>, \<lparr>x = 412, y = 312\<rparr>, \<lparr>x = 12, y = 312\<rparr>],
      corners := [\<lparr>x = 372, y = 12\<rparr>, \<lparr>x = 392, y = 12\<rparr>, \<lparr>x = 412, y = 312\<rparr>, \<lparr>x = 12, y = 312\<rparr>],
      canvas_width := 800, canvas_height := 600,
      canvas_style_width := Some 400, canvas_style_height := Some 300,
      overlayCanvas_width := 424, overlayCanvas_height := 324, redraws := 1\<rparr>"

definition narrow_selected :: Scanner where
  "narrow_selected = narrow_loaded\<lparr>selectedCornerIndex := 1\<rparr>"

definition narrow_moved :: Scanner where
  "narrow_moved = narrow_selected
     \<lparr>corners := [\<lparr>x = 372, y = 12\<rparr>, \<lparr>x = 412, y = 12\<rparr>, \<lparr>x = 412, y = 312\<rparr>, \<lparr>x = 12, y = 312\<rparr>],
      redraws := 2\<rparr>"

text \<open>
  An image of 1024 by 512 and the option \<^verbatim>\<open>width: 400.5\<close>, with the initial corners at 25
  and 75 percent: the instance after construction, after the load, after a pointer-down
  inside the box at (212, 112), and after a pointer-move from there to (1212, 112), to
  (312.5, 112) or to (312.25, 112).
\<close>

definition wide_image :: image where
  "wide_image = \<lparr>naturalWidth = 1024, naturalHeight = 512\<rparr>"

definition frac_options :: ScannerOptions where
  "frac_options = no_options\<lparr>opt_width := Some 400.5, opt_initialCorners := Some demo_corners\<rparr>"

definition frac_configured :: Scanner where
  "frac_configured = fresh\<lparr>width := Some 400.5, initialCorners := Some demo_corners\<rparr>"

definition frac_loaded :: Scanner where
  "frac_loaded = frac_configured
     \<lparr>canvasBorderPoints := [\<lparr>x = 12, y = 12\<rparr>, \<lparr>x = 412.5, y = 12\<rparr>, \<lparr>x = 412.5, y = 212\<rparr>, \<lparr>x = 12, y = 212\<rparr>],
      corners := [\<lparr>x = 112, y = 62\<rparr>, \<lparr>x = 312, y = 62\<rparr>, \<lparr>x = 312, y = 162\<rparr>, \<lparr>x = 112, y = 162\<rparr>],
      canvas_width := 800, canvas_height := 400,
      canvas_style_width := Some 400, canvas_style_height := Some 200,
      overlayCanvas_width := 424, overlayCanvas_height := 224, redraws := 1\<rparr>"

definition frac_picked :: Scanner where
  "frac_picked = frac_loaded\<lparr>move_active := True, move_prevTouch := \<lparr>x = 212, y = 112\<rparr>\<rparr>"


definition frac_edge :: Scanner where
  "frac_edge = frac_picked
     \<lparr>corners := [\<lparr>x = 212.5, y = 62\<rparr>, \<lparr>x = 412, y = 62\<rparr>, \<lparr>x = 412, y = 162\<rparr>, \<lparr>x = 212.5, y = 162\<rparr>],
      move_prevTouch := \<lparr>x = 312.5, y = 112\<rparr>, redraws := 2\<rparr>"

definition frac_inside :: Scanner where
  "frac_inside = frac_picked
     \<lparr>corners := [\<lparr>x = 212.25, y = 62\<rparr>, \<lparr>x = 412, y = 62\<rparr>, \<lparr>x = 412, y = 162\<rparr>, \<lparr>x = 212.25, y = 162\<rparr>],
      move_prevTouch := \<lparr>x = 312.25, y = 112\<rparr>, redraws := 2\<rparr>"

text \<open>
  The option \<^verbatim>\<open>width: 164\<close> and the image of 800 by 600: the instance after construction
  and after the load.
\<close>

definition thin_options :: ScannerOptions where
  "thin_options = no_options\<lparr>opt_width := Some 164\<rparr>"

definition thin_configured :: Scanner where
  "thin_configured = fresh\<lparr>width := Some 164\<rparr>"

definition thin_loaded :: Scanner where
  "thin_loaded = thin_configured
     \<lparr>canvasBorderPoints := [\<lparr>x = 12, y = 12\<rparr>, \<lparr>x = 176, y = 12\<rparr>, \<lparr>x = 176, y = 134\<rparr>, \<lparr>x = 12, y = 134\<rparr>],
      corners := [\<lparr>x = 12, y = 12\<rparr>, \<lparr>x = 176, y = 12\<rparr>, \<lparr>x = 176, y = 134\<rparr>, \<lparr>x = 12, y = 134\<rparr>],
      canvas_width := 328, canvas_height := 244,
      canvas_style_width := Some 164, canvas_style_height := Some 122,
      overlayCanvas_width := 188, overlayCanvas_height := 146, redraws := 1\<rparr>"

text \<open>
  A device whose pixel ratio is 2.5, the option \<^verbatim>\<open>width: 401\<close> and the image of 1024 by
  512: the instance after construction and after the load.
\<close>

definition hidpi_env :: env where
  "hidpi_env = \<lparr>devicePixelRatio = 2.5, isPointInPath = bounding_box_hit\<rparr>"

definition hidpi_options :: ScannerOptions where
  "hidpi_options = no_options\<lparr>opt_width := Some 401\<rparr>"

definition hidpi_configured :: Scanner where
  "hidpi_configured = fresh\<lparr>width := Some 401\<rparr>"

definition hidpi_loaded :: Scanner where
  "hidpi_loaded = hidpi_configured
     \<lparr>canvasBorderPoints := [\<lparr>x = 12, y = 12\<rparr>, \<lparr>x = 413, y = 12\<rparr>, \<lparr>x = 413, y = 212\<rparr>, \<lparr>x = 12, y = 212\<rparr>],
      corners := [\<lparr>x = 12, y = 12\<rparr>, \<lparr>x = 412.8, y = 12\<rparr>, \<lparr>x = 412.8, y = 212\<rparr>, \<lparr>x = 12, y = 212\<rparr>],
      canvas_width := 1002, canvas_height := 500,
      canvas_style_width := Some 401, canvas_style_height := Some 200,
      overlayCanvas_width := 425, overlayCanvas_height := 224, redraws := 1\<rparr>"

section \<open>Rounding and canvas sizes\<close>

text \<open>
  A number whose magnitude lies between two powers of 2 is rounded at the bit of that
  range; a whole multiple of a power of 2 with fewer than 54 bits is a double, and so is
  every whole number below 2 to the power 53. A canvas keeps a whole number between 0 and
  2147483647 as it is.
\<close>

lemma round_half_even_int: "round_half_even (of_int n) = n"
  by (simp add: round_half_even_def)

lemma floor_log2:
  assumes "2 powr of_int p \<le> r" "r < 2 powr (of_int p + 1)"
  shows "\<lfloor>log 2 r\<rfloor> = p"
proof -
  have pos: "0 < r" using assms(1) powr_gt_zero [of 2 "of_int p"] by linarith
  have "of_int p \<le> log 2 r" using assms(1) pos by (simp add: le_log_iff)
  moreover have "log 2 r < of_int p + 1" using assms(2) pos by (simp add: log_less_iff)
  ultimately show ?thesis by (simp add: floor_unique)
qed

lemma double_at:
  assumes "2 powr of_int p \<le> \<bar>r\<bar>" "\<bar>r\<bar> < 2 powr (of_int p + 1)"
  shows "double r = of_int (round_half_even (r / 2 powr (of_int p - 52))) * 2 powr (of_int p - 52)"
proof -
  have "r \<noteq> 0" using assms(1) powr_gt_zero [of 2 "of_int p"] by auto
  then show ?thesis by (simp add: double_def floor_log2 [OF assms])
qed

lemma double_exact:
  assumes r: "r = of_int m * 2 powr of_int k" and m: "\<bar>m\<bar> < 9007199254740992"
  shows "double r = r"
proof (cases "m = 0")
  case True
  then show ?thesis by (simp add: r double_def)
next
  case False
  have rn: "r \<noteq> 0" using False by (simp add: r)
  define p where "p = \<lfloor>log 2 \<bar>r\<bar>\<rfloor>"
  have ar: "\<bar>r\<bar> = of_int \<bar>m\<bar> * 2 powr of_int k" by (simp add: r abs_mult)
  have "of_int \<bar>m\<bar> < (2::real) powr 53" using m by (simp add: powr_numeral)
  then have "\<bar>r\<bar> < 2 powr 53 * 2 powr of_int k" by (simp add: ar)
  then have lt: "\<bar>r\<bar> < 2 powr (of_int (53 + k))" by (simp add: powr_add)
  have "log 2 \<bar>r\<bar> < of_int (53 + k)" using lt rn by (simp add: log_less_iff)
  then have "p < 53 + k" unfolding p_def by (simp add: floor_less_iff)
  then have le: "0 \<le> k - (p - 52)" by simp
  have "r / 2 powr (of_int p - 52) = of_int m * 2 powr (of_int k - (of_int p - 52))"
    by (simp add: r powr_diff)
  also have "2 powr (of_int k - (of_int p - 52)) = (2::real) powr of_int (k - (p - 52))" by simp
  also have "\<dots> = 2 ^ nat (k - (p - 52))" using le by (subst powr_real_of_int) auto
  finally have q: "r / 2 powr (of_int p - 52) = of_int (m * 2 ^ nat (k - (p - 52)))" by simp
  have "double r = of_int (round_half_even (r / 2 powr (of_int p - 52))) * 2 powr (of_int p - 52)"
    using rn by (simp add: double_def p_def)
  also have "\<dots> = r / 2 powr (of_int p - 52) * 2 powr (of_int p - 52)"
    by (simp only: q round_half_even_int)
  also have "\<dots> = r" by simp
  finally show ?thesis .
qed

lemma double_of_int: "\<bar>n\<bar> < 9007199254740992 \<Longrightarrow> double (of_int n) = of_int n"
  using double_exact [of "of_int n" n 0] by simp

lemma double_numeral: "numeral n < (9007199254740992::int) \<Longrightarrow> double (numeral n) = numeral n"
  using double_of_int [of "numeral n"] by simp

lemma to_canvas_size_of_int:
  "0 \<le> n \<Longrightarrow> n \<le> 2147483647 \<Longrightarrow> to_canvas_size dflt (of_int n) = of_int n"
  by (simp add: to_canvas_size_def)

lemma to_canvas_size_numeral:
  "numeral n \<le> (2147483647::int) \<Longrightarrow> to_canvas_size dflt (numeral n) = numeral n"
  using to_canvas_size_of_int [of "numeral n" dflt] by simp

section \<open>The canvas boundary\<close>

text \<open>
  On a rectangle the border test of \<^verbatim>\<open>#isPointOnBorder\<close> holds exactly on the four
  sides. A position held into the overlay that is not on the border was strictly inside
  already, and holding a position on the border into the overlay leaves it on the border.
\<close>

lemma isPointOnBorder_4:
  "isPointOnBorder p [a, b, c, d] =
     (on_segment p a b \<or> on_segment p b c \<or> on_segment p c d \<or> on_segment p d a)"
  by (simp add: isPointOnBorder_def upt_rec)

lemma on_border_polygon:
  assumes "0 \<le> cw" "0 \<le> ch"
  shows "isPointOnBorder p (border_polygon r cw ch) =
     (r \<le> x p \<and> x p \<le> cw + r \<and> r \<le> y p \<and> y p \<le> ch + r \<and>
      (x p = r \<or> x p = cw + r \<or> y p = r \<or> y p = ch + r))"
proof -
  have m: "min r (cw + r) = r" "max r (cw + r) = cw + r" "min (cw + r) r = r" "max (cw + r) r = cw + r"
          "min r (ch + r) = r" "max r (ch + r) = ch + r" "min (ch + r) r = r" "max (ch + r) r = ch + r"
    using assms by (simp_all add: min_def max_def)
  show ?thesis
    using assms unfolding border_polygon_def isPointOnBorder_4 on_segment_def
    apply (simp add: m)
    apply (auto simp: algebra_simps)
    done
qed

lemma framed_border:
  "framed s \<Longrightarrow> canvasBorderPoints s =
      border_polygon (cornerRadius s) (overlayCanvas_width s - 2 * cornerRadius s)
         (overlayCanvas_height s - 2 * cornerRadius s)"
  by (simp add: framed_def)

lemma in_boundary_framed:
  "framed s \<Longrightarrow> in_boundary s p =
     (cornerRadius s \<le> x p \<and> x p \<le> overlayCanvas_width s - cornerRadius s \<and>
      cornerRadius s \<le> y p \<and> y p \<le> overlayCanvas_height s - cornerRadius s)"
  by (simp add: framed_def border_polygon_def in_boundary_def)

lemma strictly_inside_framed:
  "framed s \<Longrightarrow> strictly_inside s p =
     (cornerRadius s < x p \<and> x p < overlayCanvas_width s - cornerRadius s \<and>
      cornerRadius s < y p \<and> y p < overlayCanvas_height s - cornerRadius s)"
  by (simp add: framed_def border_polygon_def strictly_inside_def)


lemma clamp_keeps_inside:
  assumes "framed s" "strictly_inside s \<lparr>x = px, y = py\<rparr>"
  shows "clamp_to_overlay s px py = \<lparr>x = px, y = py\<rparr>"
    and "\<not> isPointOnBorder \<lparr>x = px, y = py\<rparr> (canvasBorderPoints s)"
proof -
  from assms have i: "cornerRadius s < px" "px < overlayCanvas_width s - cornerRadius s"
      "cornerRadius s < py" "py < overlayCanvas_height s - cornerRadius s"
    by (simp_all add: strictly_inside_framed)
  show "clamp_to_overlay s px py = \<lparr>x = px, y = py\<rparr>"
    using i by (simp add: clamp_to_overlay_def)
  have "0 \<le> overlayCanvas_width s - 2 * cornerRadius s" "0 \<le> overlayCanvas_height s - 2 * cornerRadius s"
    using i by simp_all
  then show "\<not> isPointOnBorder \<lparr>x = px, y = py\<rparr> (canvasBorderPoints s)"
    using i by (simp add: framed_border [OF assms(1)] on_border_polygon)
qed

lemma clamp_off_border:
  assumes "framed s" "\<not> isPointOnBorder (clamp_to_overlay s px py) (canvasBorderPoints s)"
  shows "clamp_to_overlay s px py = \<lparr>x = px, y = py\<rparr>" and "strictly_inside s \<lparr>x = px, y = py\<rparr>"
proof -
  define r where "r = cornerRadius s"
  define R where "R = overlayCanvas_width s - cornerRadius s"
  define B where "B = overlayCanvas_height s - cornerRadius s"
  have bp: "canvasBorderPoints s = [\<lparr>x = r, y = r\<rparr>, \<lparr>x = R, y = r\<rparr>, \<lparr>x = R, y = B\<rparr>, \<lparr>x = r, y = B\<rparr>]"
    using assms(1) by (simp add: framed_def border_polygon_def r_def R_def B_def)
  have cl: "clamp_to_overlay s px py = \<lparr>x = max r (min px R), y = max r (min py B)\<rparr>"
    by (simp add: clamp_to_overlay_def r_def R_def B_def)
  have nb: "\<not> isPointOnBorder \<lparr>x = max r (min px R), y = max r (min py B)\<rparr>
              [\<lparr>x = r, y = r\<rparr>, \<lparr>x = R, y = r\<rparr>, \<lparr>x = R, y = B\<rparr>, \<lparr>x = r, y = B\<rparr>]"
    using assms(2) by (simp add: bp cl)
  have rR: "r \<le> R"
  proof (rule ccontr)
    assume "\<not> r \<le> R"
    then have "max r (min px R) = r" by simp
    then have "on_segment \<lparr>x = max r (min px R), y = max r (min py B)\<rparr> \<lparr>x = r, y = B\<rparr> \<lparr>x = r, y = r\<rparr>"
      by (simp add: on_segment_def min_le_iff_disj le_max_iff_disj) linarith?
    with nb show False by (simp add: isPointOnBorder_4)
  qed
  have rB: "r \<le> B"
  proof (rule ccontr)
    assume "\<not> r \<le> B"
    then have "max r (min py B) = r" by simp
    then have "on_segment \<lparr>x = max r (min px R), y = max r (min py B)\<rparr> \<lparr>x = r, y = r\<rparr> \<lparr>x = R, y = r\<rparr>"
      using rR by (simp add: on_segment_def min_le_iff_disj le_max_iff_disj) linarith?
    with nb show False by (simp add: isPointOnBorder_4)
  qed
  have bp': "canvasBorderPoints s = border_polygon r (R - r) (B - r)"
    by (simp add: bp border_polygon_def)
  have "0 \<le> R - r" "0 \<le> B - r" using rR rB by simp_all
  note ob = on_border_polygon [OF this, of "\<lparr>x = max r (min px R), y = max r (min py B)\<rparr>" r]
  from assms(2) have strict: "r < max r (min px R) \<and> max r (min px R) < R \<and> r < max r (min py B) \<and> max r (min py B) < B"
    unfolding cl bp' ob using rR rB by auto
  then have "r < px" "px < R" "r < py" "py < B" by auto
  then show "clamp_to_overlay s px py = \<lparr>x = px, y = py\<rparr>"
    by (simp add: cl)
  show "strictly_inside s \<lparr>x = px, y = py\<rparr>"
    using \<open>r < px\<close> \<open>px < R\<close> \<open>r < py\<close> \<open>py < B\<close>
    by (simp add: strictly_inside_framed [OF assms(1)] r_def R_def B_def)
qed

lemma clamp_stays_on_border:
  assumes "framed s" "isPointOnBorder \<lparr>x = px, y = py\<rparr> (canvasBorderPoints s)"
  shows "isPointOnBorder (clamp_to_overlay s px py) (canvasBorderPoints s)"
proof (rule ccontr)
  assume n: "\<not> isPointOnBorder (clamp_to_overlay s px py) (canvasBorderPoints s)"
  from clamp_off_border [OF assms(1) n]
  have "clamp_to_overlay s px py = \<lparr>x = px, y = py\<rparr>" by simp
  with n assms(2) show False by simp
qed

lemma clamp_in_boundary:
  "framed s \<Longrightarrow> in_boundary s \<lparr>x = tx, y = ty\<rparr> \<Longrightarrow> clamp_to_overlay s tx ty = \<lparr>x = tx, y = ty\<rparr>"
  by (simp add: in_boundary_framed clamp_to_overlay_def)

section \<open>What pointer events leave alone\<close>

lemma drawCropBox_Inr: "drawCropBox s = Inr s' \<Longrightarrow> s' = s\<lparr>redraws := redraws s + 1\<rparr>"
  by (simp add: drawCropBox_def split: if_splits)

lemma same_canvas_refl: "same_canvas s s"
  by (simp add: same_canvas_def)

lemma same_canvas_trans: "same_canvas s s' \<Longrightarrow> same_canvas s' s'' \<Longrightarrow> same_canvas s s''"
  by (simp add: same_canvas_def)

lemma afterTouchStart_canvas: "afterTouchStart e s tx ty = Inr s' \<Longrightarrow> same_canvas s s' \<and> corners s' = corners s"
  by (auto simp: afterTouchStart_def same_canvas_def split: sum.splits if_splits)

lemma handleTouchEnd_canvas: "same_canvas s (handleTouchEnd s) \<and> corners (handleTouchEnd s) = corners s"
  by (simp add: handleTouchEnd_def same_canvas_def)

lemma moveCropBox_canvas: "moveCropBox s tx ty = Inr s' \<Longrightarrow> same_canvas s s'"
  by (auto simp: moveCropBox_def Let_def same_canvas_def translatedCorners_def dest!: drawCropBox_Inr split: if_splits)

lemma afterTouchMove_canvas: "afterTouchMove s tx ty = Inr s' \<Longrightarrow> same_canvas s s'"
  by (auto simp: afterTouchMove_def moveCropBox_canvas same_canvas_refl dest!: drawCropBox_Inr
        split: if_splits sum.splits bool.splits)
     (simp add: same_canvas_def)

lemma framed_same_canvas: "framed s \<Longrightarrow> same_canvas s s' \<Longrightarrow> framed s'"
  by (simp add: framed_def same_canvas_def)

lemma reachable_canvas: "reachable e s0 s \<Longrightarrow> same_canvas s0 s"
proof (induction rule: reachable.induct)
  case start
  show ?case by (rule same_canvas_refl)
next
  case (touch_start s tx ty s')
  then show ?case using afterTouchStart_canvas same_canvas_trans by blast
next
  case (touch_move s tx ty s')
  then show ?case using afterTouchMove_canvas same_canvas_trans by blast
next
  case (touch_end s)
  then show ?case using handleTouchEnd_canvas same_canvas_trans by blast
qed

lemma reachable_framed: "framed s0 \<Longrightarrow> reachable e s0 s \<Longrightarrow> framed s"
  using reachable_canvas [of e s0 s] by (auto simp: framed_same_canvas)

lemma onload_nonempty: "onload e im sp = Inr s0 \<Longrightarrow> corners s0 \<noteq> []"
  by (auto simp: onload_def drawCropBox_def split: if_splits)

lemma reachable_nonempty: "corners s0 \<noteq> [] \<Longrightarrow> reachable e s0 s \<Longrightarrow> corners s \<noteq> []"
  using reachable_canvas [of e s0 s] by (auto simp: same_canvas_def)

text \<open>
  What \<^verbatim>\<open>#initializeCanvasDimensions\<close> leaves in the fields, and when the state is framed
  after a load: when the size and twice the corner radius are whole numbers that a canvas
  keeps as they are.
\<close>

lemma initializeCanvasDimensions_fields:
  assumes "resolve_size im s = (cw, ch)"
  shows "canvasBorderPoints (initializeCanvasDimensions e im s) = border_polygon (cornerRadius s) cw ch"
    and "canvas_style_width (initializeCanvasDimensions e im s) = Some (to_canvas_size 300 cw)"
    and "canvas_style_height (initializeCanvasDimensions e im s) = Some (to_canvas_size 150 ch)"
    and "overlayCanvas_width (initializeCanvasDimensions e im s) =
           to_canvas_size 300 (double (to_canvas_size 300 cw + 2 * cornerRadius s))"
    and "overlayCanvas_height (initializeCanvasDimensions e im s) =
           to_canvas_size 150 (double (to_canvas_size 150 ch + 2 * cornerRadius s))"
    and "canvas_width (initializeCanvasDimensions e im s) =
           to_canvas_size 300 (double (to_canvas_size 300 cw * devicePixelRatio e))"
    and "canvas_height (initializeCanvasDimensions e im s) =
           to_canvas_size 150 (double (to_canvas_size 150 ch * devicePixelRatio e))"
    and "cornerRadius (initializeCanvasDimensions e im s) = cornerRadius s"
  using assms by (simp_all add: initializeCanvasDimensions_def Let_def)

lemma onload_canvas:
  assumes "onload e im sp = Inr s0"
  shows "canvasBorderPoints s0 = canvasBorderPoints (initializeCanvasDimensions e im sp)"
    and "overlayCanvas_width s0 = overlayCanvas_width (initializeCanvasDimensions e im sp)"
    and "overlayCanvas_height s0 = overlayCanvas_height (initializeCanvasDimensions e im sp)"
    and "cornerRadius s0 = cornerRadius (initializeCanvasDimensions e im sp)"
  using assms
  by (auto simp: onload_def initializeCorners_def split: option.splits dest!: drawCropBox_Inr)

lemma onload_framed:
  assumes ld: "onload e im sp = Inr s0"
    and rs: "resolve_size im sp = (of_int a, of_int b)"
    and cr: "2 * cornerRadius sp = of_int c"
    and lo: "0 \<le> a" "0 \<le> b" "0 \<le> a + c" "0 \<le> b + c"
    and hi: "a \<le> 2147483647" "b \<le> 2147483647" "a + c \<le> 2147483647" "b + c \<le> 2147483647"
  shows "framed s0"
proof -
  note f = initializeCanvasDimensions_fields [OF rs, of e]
  have a: "to_canvas_size 300 (of_int a) = of_int a" "to_canvas_size 150 (of_int b) = of_int b"
    using lo hi by (simp_all add: to_canvas_size_of_int)
  have d: "double (of_int a + of_int c) = of_int (a + c)" "double (of_int b + of_int c) = of_int (b + c)"
    using double_of_int [of "a + c"] double_of_int [of "b + c"] lo hi by simp_all
  have o: "to_canvas_size 300 (of_int (a + c)) = of_int (a + c)"
       "to_canvas_size 150 (of_int (b + c)) = of_int (b + c)"
    using lo hi by (simp_all only: to_canvas_size_of_int)
  have w: "overlayCanvas_width s0 = of_int (a + c)" "overlayCanvas_height s0 = of_int (b + c)"
    by (simp_all only: onload_canvas [OF ld] f a cr d o)
  have "canvasBorderPoints s0 = border_polygon (cornerRadius sp) (of_int a) (of_int b)"
    and "cornerRadius s0 = cornerRadius sp"
    by (simp_all only: onload_canvas [OF ld] f)
  then show ?thesis
    using cr by (simp add: framed_def w)
qed


section \<open>The examples, step by step\<close>

lemma register_listeners_fresh:
  assumes "listeners d ov = []"
  shows "register_listeners ov d =
     d\<lparr>next_function := next_function d + 6,
       listeners := (listeners d)(ov := registered (next_function d))\<rparr>"
  using assms
  by (simp add: register_listeners_def bind_def addEventListener_def registered_def add.commute)

text \<open>
  What the constructor returns when no check fires and the new overlay element has no
  listeners yet.
\<close>

lemma constructor_accepts:
  assumes "\<not> (has_key (opt_backdropColor options) \<and> has_key (opt_cropBoxColor options))"
    "\<not> (truthy (opt_width options) \<and> truthy (opt_maxWidth options))"
    "\<not> (truthy (opt_height options) \<and> truthy (opt_maxHeight options))"
    "listeners d (next_node d + 3) = []"
  shows "constructor d options =
    (Inr \<lparr>parent = opt_parent options,
           relativePostionedDiv = next_node d + 2,
           canvas = next_node d + 1,
           overlayCanvas = next_node d + 3,
           img = next_node d,
           width = keep_truthy (opt_width options),
           height = keep_truthy (opt_height options),
           maxWidth = keep_truthy (opt_maxWidth options),
           maxHeight = keep_truthy (opt_maxHeight options),
           canvasBorderPoints = [],
           cornerRadius = or_default (opt_cornerRadius options) 12,
           cornerColor = or_default (opt_cornerColor options) ''lightgreen'',
           cropBoxColor = given_value (opt_cropBoxColor options),
           backdropColor =
             or_default (given_value (opt_backdropColor options)) ''rgba(0, 0, 0, 0.5)'',
           minCropBoxWidth = or_default (opt_minCropBoxWidth options) 100,
           minCropBoxHeight = or_default (opt_minCropBoxHeight options) 100,
           move_active = False,
           move_prevTouch = \<lparr>x = 0, y = 0\<rparr>,
           corners = [],
           selectedCornerIndex = - 1,
           cropBoxBorderWidth = or_default (opt_cropBoxBorderWidth options) 1,
           cropBoxBorderColor =
             or_default (opt_cropBoxBorderColor options) ''rgba(255, 255, 255)'',
           initialCorners = opt_initialCorners options,
           canvas_width = 300,
           canvas_height = 150,
           canvas_style_width = None,
           canvas_style_height = None,
           overlayCanvas_width = 300,
           overlayCanvas_height = 150,
           redraws = 0\<rparr>,
     appendChild (opt_parent options) (next_node d + 2)
       (appendChild (next_node d + 2) (next_node d + 3)
         (appendChild (next_node d + 2) (next_node d + 1)
           (d\<lparr>next_node := next_node d + 4, next_function := next_function d + 6,
              listeners := (listeners d)(next_node d + 3 := registered (next_function d))\<rparr>))))"
proof -
  have "listeners (d\<lparr>next_node := next_node d + 4\<rparr>) (next_node d + 3) = []"
    using assms(4) by simp
  note r = register_listeners_fresh [OF this]
  show ?thesis
    using assms(1-3)
    by (simp add: constructor_def createElement_def add.commute r [simplified add.commute, simplified])
qed

lemma constructor_no_options: "constructor dom0 no_options = (Inr fresh, dom1)"
  by (subst constructor_accepts) 
     (simp_all add: dom0_def no_options_def has_key_def truthy_def keep_truthy_def or_default_def given_value_def
        fresh_def dom1_def appendChild_def)

lemma constructor_demo: "constructor dom0 demo_options = (Inr demo_configured, dom1)"
  by (subst constructor_accepts) 
     (simp_all add: dom0_def demo_options_def no_options_def has_key_def truthy_def keep_truthy_def or_default_def given_value_def
        demo_configured_def fresh_def dom1_def appendChild_def)

text \<open>
  The quotients and products of the examples that are doubles, and the two roundings of
  the example with \<^verbatim>\<open>width: 164\<close>: 164 / 800 is rounded down, and so is its product
  with 600, which ends below 123.
\<close>

lemma exact_doubles:
  "double (1 / 2) = 1 / 2" "double (801 / 2048) = 801 / 2048" "double (801 / 4) = 801 / 4"
  "double (401 / 1024) = 401 / 1024" "double (401 / 2) = 401 / 2" "double (2005 / 2) = 2005 / 2"
  using double_exact [of "1 / 2" 1 "- 1"] double_exact [of "801 / 2048" 801 "- 11"]
    double_exact [of "801 / 4" 801 "- 2"] double_exact [of "401 / 1024" 401 "- 10"]
    double_exact [of "401 / 2" 401 "- 1"] double_exact [of "2005 / 2" 2005 "- 1"]
  by (simp_all add: powr_neg_numeral)

lemma rounded_quotient: "double (164 / 800) = 7385903388887613 / 36028797018963968"
  using double_at [of "- 3" "164 / 800"]
  by (simp add: round_half_even_def powr_neg_numeral)

lemma rounded_product:
  "double (7385903388887613 / 36028797018963968 * 600) = 8655355533852671 / 70368744177664"
  using double_at [of 6 "7385903388887613 / 36028797018963968 * 600"]
  by (simp add: round_half_even_def powr_neg_numeral powr_numeral)

lemma floor_rounded_product: "real_of_int \<lfloor>double (double (164 / 800) * 600)\<rfloor> = 122"
  unfolding rounded_quotient rounded_product by simp

lemma resolve_width_only:
  assumes "truthy (width s)" "\<not> truthy (height s)" "\<not> truthy (maxHeight s)"
  shows "resolve_size im s =
     (num (width s),
      real_of_int \<lfloor>double (double (num (width s) / naturalWidth im) * naturalHeight im)\<rfloor>)"
  using assms by (simp add: resolve_size_def)

lemma resolve_demo: "resolve_size demo_image demo_configured = (400, 300)"
  by (simp add: resolve_size_def demo_image_def demo_configured_def fresh_def truthy_def num_def
        exact_doubles double_numeral)

lemma onload_demo: "onload demo_env demo_image demo_configured = Inr demo_loaded"
  by (simp add: onload_def initializeCanvasDimensions_def resolve_demo initializeCorners_def drawCropBox_def
        border_polygon_def)
     (simp add: demo_configured_def fresh_def demo_loaded_def demo_env_def demo_corners_def
        double_numeral to_canvas_size_numeral)

lemmas demo_states = demo_loaded_def demo_configured_def fresh_def demo_picked_def demo_moved_def
  demo_cornered_def demo_both_def

lemma start_demo: "afterTouchStart demo_env demo_loaded 212 162 = Inr demo_picked"
  by (simp add: afterTouchStart_def isTouchInsideCropBox_def demo_loaded_def demo_configured_def fresh_def
        demo_env_def bounding_box_hit_def demo_picked_def)





lemma reachable_picked: "reachable demo_env demo_loaded demo_picked"
  using reachable.start [of demo_env demo_loaded] start_demo
  by (blast intro: reachable.touch_start)



lemma corner_demo: "afterTouchStart demo_env demo_loaded 112 87 = Inr demo_cornered"
  by (simp add: afterTouchStart_def isTouchInsideCropBox_def getSelectedCornerIndex_def demo_states
        demo_env_def bounding_box_hit_def)


lemma reachable_cornered: "reachable demo_env demo_loaded demo_cornered"
  using reachable.start [of demo_env demo_loaded] corner_demo
  by (blast intro: reachable.touch_start)

lemma demo_cornered_fields:
  "corners demo_cornered =
     [\<lparr>x = 112, y = 87\<rparr>, \<lparr>x = 312, y = 87\<rparr>, \<lparr>x = 312, y = 237\<rparr>, \<lparr>x = 112, y = 237\<rparr>]"
  "minCropBoxWidth demo_cornered = 100" "minCropBoxHeight demo_cornered = 100"
  "cornerRadius demo_cornered = 12" "overlayCanvas_width demo_cornered = 424"
  "overlayCanvas_height demo_cornered = 324" "selectedCornerIndex demo_cornered = 0"
  "\<not> move_active demo_cornered" "redraws demo_cornered = 1"
  "canvasBorderPoints demo_cornered = border_polygon 12 400 300"
  by (simp_all add: demo_states border_polygon_def)

lemma candidate_demo:
  "candidate_points demo_cornered tx ty =
     [\<lparr>x = tx, y = ty\<rparr>, \<lparr>x = 312, y = 87\<rparr>, \<lparr>x = 312, y = 237\<rparr>, \<lparr>x = 112, y = 237\<rparr>]"
  by (simp add: candidate_points_def demo_cornered_fields upt_rec)

lemma both_demo: "afterTouchStart demo_env demo_cornered 212 162 = Inr demo_both"
  by (simp add: afterTouchStart_def isTouchInsideCropBox_def demo_states
        demo_env_def bounding_box_hit_def)

lemma shift_demo: "afterTouchMove demo_both 213 162 = Inr demo_shifted"
proof -
  have b: "canvasBorderPoints demo_both = border_polygon 12 400 300"
    by (simp add: demo_states border_polygon_def)
  show ?thesis
  by (simp add: afterTouchMove_def moveCropBox_def translatedCorners_def clamp_to_overlay_def drawCropBox_def
         b on_border_polygon Let_def)
     (simp add: demo_states demo_shifted_def)
qed

lemma demo_both_fields:
  "corners demo_both = corners demo_cornered" "selectedCornerIndex demo_both = 0"
  "minCropBoxWidth demo_both = 100" "redraws demo_both = 1"
  by (simp_all add: demo_both_def demo_cornered_fields)

lemma candidate_both:
  "candidate_points demo_both tx ty = candidate_points demo_cornered tx ty"
  by (simp add: candidate_points_def demo_both_fields demo_cornered_fields)


lemma constructor_narrow: "constructor dom0 narrow_options = (Inr narrow_configured, dom1)"
  by (subst constructor_accepts) 
     (simp_all add: dom0_def narrow_options_def no_options_def has_key_def truthy_def keep_truthy_def or_default_def given_value_def
        narrow_configured_def fresh_def dom1_def appendChild_def)

lemma onload_narrow: "onload demo_env demo_image narrow_configured = Inr narrow_loaded"
proof -
  have "resolve_size demo_image narrow_configured = (400, 300)"
    by (simp add: resolve_size_def demo_image_def narrow_configured_def fresh_def truthy_def num_def
          exact_doubles double_numeral)
  then show ?thesis
  by (simp add: onload_def initializeCanvasDimensions_def initializeCorners_def drawCropBox_def
        border_polygon_def)
     (simp add: narrow_configured_def fresh_def narrow_loaded_def demo_env_def narrow_corners_def
        double_numeral to_canvas_size_numeral)
qed

lemmas narrow_states = narrow_loaded_def narrow_configured_def fresh_def narrow_selected_def narrow_moved_def

lemma sqrt_le_iff_sq: "0 \<le> b \<Longrightarrow> (sqrt a \<le> b) = (a \<le> b\<^sup>2)"
  by (metis abs_of_nonneg real_sqrt_abs real_sqrt_le_iff)

lemma select_narrow: "afterTouchStart demo_env narrow_loaded 392 12 = Inr narrow_selected"
  by (simp add: afterTouchStart_def isTouchInsideCropBox_def getSelectedCornerIndex_def narrow_states
        demo_env_def bounding_box_hit_def sqrt_le_iff_sq)

lemma narrow_selected_fields:
  "corners narrow_selected =
     [\<lparr>x = 372, y = 12\<rparr>, \<lparr>x = 392, y = 12\<rparr>, \<lparr>x = 412, y = 312\<rparr>, \<lparr>x = 12, y = 312\<rparr>]"
  "minCropBoxWidth narrow_selected = 100" "minCropBoxHeight narrow_selected = 100"
  "cornerRadius narrow_selected = 12" "overlayCanvas_width narrow_selected = 424"
  "overlayCanvas_height narrow_selected = 324" "selectedCornerIndex narrow_selected = 1"
  "\<not> move_active narrow_selected" "redraws narrow_selected = 1"
  by (simp_all add: narrow_states)

lemma candidate_narrow:
  "candidate_points narrow_selected tx ty =
     [\<lparr>x = 372, y = 12\<rparr>, \<lparr>x = tx, y = ty\<rparr>, \<lparr>x = 412, y = 312\<rparr>, \<lparr>x = 12, y = 312\<rparr>]"
  by (simp add: candidate_points_def narrow_selected_fields upt_rec)

lemma move_narrow: "afterTouchMove narrow_selected 1000 12 = Inr narrow_moved"
  by (simp add: afterTouchMove_def candidate_narrow cropBoxIsTooSmall_def clamp_to_overlay_def
        drawCropBox_def narrow_selected_fields narrow_moved_def)

text \<open>
  The example with \<^verbatim>\<open>width: 400.5\<close>: the canvas keeps 400, the right side of the border
  polygon is at 412.5 and the overlay ends at 424, so that positions are held to 412.
\<close>

lemma constructor_frac: "constructor dom0 frac_options = (Inr frac_configured, dom1)"
  by (subst constructor_accepts)
     (simp_all add: dom0_def frac_options_def no_options_def has_key_def truthy_def keep_truthy_def or_default_def given_value_def
        frac_configured_def fresh_def dom1_def appendChild_def)

lemma resolve_frac: "resolve_size wide_image frac_configured = (400.5, 200)"
  by (simp add: resolve_size_def wide_image_def frac_configured_def fresh_def truthy_def num_def
        exact_doubles)

lemma onload_frac: "onload demo_env wide_image frac_configured = Inr frac_loaded"
  by (simp add: onload_def initializeCanvasDimensions_def resolve_frac initializeCorners_def drawCropBox_def
        border_polygon_def)
     (simp add: frac_configured_def fresh_def frac_loaded_def demo_env_def demo_corners_def
        to_canvas_size_def double_numeral)

lemmas frac_states = frac_loaded_def frac_configured_def fresh_def frac_picked_def

lemma frac_picked_fields:
  "corners frac_picked =
     [\<lparr>x = 112, y = 62\<rparr>, \<lparr>x = 312, y = 62\<rparr>, \<lparr>x = 312, y = 162\<rparr>, \<lparr>x = 112, y = 162\<rparr>]"
  "canvasBorderPoints frac_picked = border_polygon 12 400.5 200"
  "cornerRadius frac_picked = 12" "overlayCanvas_width frac_picked = 424"
  "overlayCanvas_height frac_picked = 224" "move_active frac_picked"
  "move_prevTouch frac_picked = \<lparr>x = 212, y = 112\<rparr>" "redraws frac_picked = 1"
  "minCropBoxWidth frac_picked = 100" "minCropBoxHeight frac_picked = 100"
  by (simp_all add: frac_states border_polygon_def)


lemma start_frac: "afterTouchStart demo_env frac_loaded 212 112 = Inr frac_picked"
  by (simp add: afterTouchStart_def isTouchInsideCropBox_def frac_states
        demo_env_def bounding_box_hit_def)


lemma edge_frac: "afterTouchMove frac_picked 312.5 112 = Inr frac_edge"
  by (simp add: afterTouchMove_def moveCropBox_def translatedCorners_def clamp_to_overlay_def drawCropBox_def
         frac_picked_fields on_border_polygon Let_def)
     (simp add: frac_edge_def)

lemma inside_frac: "afterTouchMove frac_picked 312.25 112 = Inr frac_inside"
  by (simp add: afterTouchMove_def moveCropBox_def translatedCorners_def clamp_to_overlay_def drawCropBox_def
         frac_picked_fields on_border_polygon Let_def)
     (simp add: frac_inside_def)

text \<open>
  The example with \<^verbatim>\<open>width: 164\<close>, and the one on the device with pixel ratio 2.5.
\<close>

lemma constructor_thin: "constructor dom0 thin_options = (Inr thin_configured, dom1)"
  by (subst constructor_accepts)
     (simp_all add: dom0_def thin_options_def no_options_def has_key_def truthy_def keep_truthy_def or_default_def given_value_def
        thin_configured_def fresh_def dom1_def appendChild_def)

lemma resolve_thin: "resolve_size demo_image thin_configured = (164, 122)"
proof -
  have "resolve_size demo_image thin_configured =
          (164, real_of_int \<lfloor>double (double (164 / 800) * 600)\<rfloor>)"
    using resolve_width_only [of thin_configured demo_image]
    by (simp add: thin_configured_def fresh_def truthy_def num_def demo_image_def)
  then show ?thesis by (simp only: floor_rounded_product)
qed

lemma onload_thin: "onload demo_env demo_image thin_configured = Inr thin_loaded"
  by (simp add: onload_def initializeCanvasDimensions_def resolve_thin initializeCorners_def drawCropBox_def
        border_polygon_def)
     (simp add: thin_configured_def fresh_def thin_loaded_def demo_env_def
        double_numeral to_canvas_size_numeral)

lemma constructor_hidpi: "constructor dom0 hidpi_options = (Inr hidpi_configured, dom1)"
  by (subst constructor_accepts)
     (simp_all add: dom0_def hidpi_options_def no_options_def has_key_def truthy_def keep_truthy_def or_default_def given_value_def
        hidpi_configured_def fresh_def dom1_def appendChild_def)

lemma resolve_hidpi: "resolve_size wide_image hidpi_configured = (401, 200)"
  by (simp add: resolve_size_def wide_image_def hidpi_configured_def fresh_def truthy_def num_def
        exact_doubles)

lemma dimensions_hidpi:
  "initializeCanvasDimensions hidpi_env wide_image hidpi_configured =
     hidpi_configured
       \<lparr>canvasBorderPoints := [\<lparr>x = 12, y = 12\<rparr>, \<lparr>x = 413, y = 12\<rparr>, \<lparr>x = 413, y = 212\<rparr>, \<lparr>x = 12, y = 212\<rparr>],
        canvas_style_width := Some 401, canvas_style_height := Some 200,
        overlayCanvas_width := 425, overlayCanvas_height := 224,
        canvas_width := 1002, canvas_height := 500\<rparr>"
  by (simp add: initializeCanvasDimensions_def resolve_hidpi border_polygon_def)
     (simp add: hidpi_configured_def fresh_def hidpi_env_def double_numeral to_canvas_size_numeral
        exact_doubles to_canvas_size_def)

lemma onload_hidpi: "onload hidpi_env wide_image hidpi_configured = Inr hidpi_loaded"
  by (simp add: onload_def dimensions_hidpi initializeCorners_def drawCropBox_def)
     (simp add: hidpi_configured_def fresh_def hidpi_loaded_def hidpi_env_def)

section \<open>The crop box stays valid (C1)\<close>


lemma tooSmall_four:
  "4 \<le> length cs \<Longrightarrow>
     cropBoxIsTooSmall s cs =
       Inr (x (cs ! 1) - x (cs ! 0) < minCropBoxWidth s \<or>
            x (cs ! 2) - x (cs ! 3) < minCropBoxWidth s \<or>
            y (cs ! 3) - y (cs ! 0) < minCropBoxHeight s \<or>
            y (cs ! 2) - y (cs ! 1) < minCropBoxHeight s)"
  by (simp add: cropBoxIsTooSmall_def)




lemma candidate_points_update:
  assumes "0 \<le> selectedCornerIndex s" "selectedCornerIndex s < int (length (corners s))"
  shows "candidate_points s tx ty = (corners s)[nat (selectedCornerIndex s) := \<lparr>x = tx, y = ty\<rparr>]"
  using assms by (intro nth_equalityI) (auto simp: candidate_points_def nth_list_update)










section \<open>Dragging the whole box (C2)\<close>

lemma translated_inside:
  assumes f: "framed s"
    and i: "list_all (\<lambda>c. strictly_inside s (translate dx dy c)) (corners s)"
  shows "translatedCorners s dx dy = map (translate dx dy) (corners s)"
    and "\<not> list_ex (\<lambda>c. isPointOnBorder c (canvasBorderPoints s)) (translatedCorners s dx dy)"
proof -
  have each: "clamp_to_overlay s (x c + dx) (y c + dy) = translate dx dy c \<and>
              \<not> isPointOnBorder (translate dx dy c) (canvasBorderPoints s)"
    if "c \<in> set (corners s)" for c
  proof -
    from i that have "strictly_inside s \<lparr>x = x c + dx, y = y c + dy\<rparr>"
      by (simp add: list_all_iff translate_def)
    from clamp_keeps_inside [OF f this] show ?thesis by (simp add: translate_def)
  qed
  then show t: "translatedCorners s dx dy = map (translate dx dy) (corners s)"
    by (simp add: translatedCorners_def)
  show "\<not> list_ex (\<lambda>c. isPointOnBorder c (canvasBorderPoints s)) (translatedCorners s dx dy)"
    using each by (simp add: t list_ex_iff)
qed

lemma translated_on_border:
  assumes f: "framed s"
    and i: "list_ex (\<lambda>c. isPointOnBorder (translate dx dy c) (canvasBorderPoints s)) (corners s)"
  shows "list_ex (\<lambda>c. isPointOnBorder c (canvasBorderPoints s)) (translatedCorners s dx dy)"
proof -
  from i obtain c where c: "c \<in> set (corners s)"
     "isPointOnBorder \<lparr>x = x c + dx, y = y c + dy\<rparr> (canvasBorderPoints s)"
    by (auto simp: list_ex_iff translate_def)
  from clamp_stays_on_border [OF f c(2)] c(1) show ?thesis
    by (auto simp: list_ex_iff translatedCorners_def)
qed

text \<open>
  In a framed state in which a whole-box drag is active and the corner radius is not
  negative, let \<open>(dx, dy)\<close> be the pointer's
  move since the position recorded last. If every corner moved by \<open>(dx, dy)\<close> is strictly
  inside the canvas boundary, the pointer-move moves every corner by exactly \<open>(dx, dy)\<close>.
  If some corner moved by \<open>(dx, dy)\<close> is on an edge of the boundary polygon (the
  point-on-segment test of \<^verbatim>\<open>#isPointOnBorder\<close>), the pointer-move leaves all corners
  where they were. Either way the pointer position is recorded and the box is redrawn.
\<close>

lemma framed_box_drag:
  assumes f: "framed s" and ne: "corners s \<noteq> []" and a: "move_active s"
    and nr: "0 \<le> cornerRadius s"
  shows
    "(list_all (\<lambda>c. strictly_inside s
          (translate (tx - x (move_prevTouch s)) (ty - y (move_prevTouch s)) c)) (corners s) \<longrightarrow>
        afterTouchMove s tx ty =
          Inr (s\<lparr>corners := map (translate (tx - x (move_prevTouch s)) (ty - y (move_prevTouch s)))
                              (corners s),
                 move_prevTouch := \<lparr>x = tx, y = ty\<rparr>, redraws := redraws s + 1\<rparr>)) \<and>
     (list_ex (\<lambda>c. isPointOnBorder
          (translate (tx - x (move_prevTouch s)) (ty - y (move_prevTouch s)) c)
          (canvasBorderPoints s)) (corners s) \<longrightarrow>
        afterTouchMove s tx ty =
          Inr (s\<lparr>move_prevTouch := \<lparr>x = tx, y = ty\<rparr>, redraws := redraws s + 1\<rparr>))"
proof (intro conjI impI)
  assume i: "list_all (\<lambda>c. strictly_inside s
        (translate (tx - x (move_prevTouch s)) (ty - y (move_prevTouch s)) c)) (corners s)"
  note t = translated_inside [OF f i]
  show "afterTouchMove s tx ty =
        Inr (s\<lparr>corners := map (translate (tx - x (move_prevTouch s)) (ty - y (move_prevTouch s)))
                            (corners s),
               move_prevTouch := \<lparr>x = tx, y = ty\<rparr>, redraws := redraws s + 1\<rparr>)"
    using a ne nr t(2) by (simp add: afterTouchMove_def moveCropBox_def Let_def drawCropBox_def t(1))
next
  assume i: "list_ex (\<lambda>c. isPointOnBorder
        (translate (tx - x (move_prevTouch s)) (ty - y (move_prevTouch s)) c)
        (canvasBorderPoints s)) (corners s)"
  note t = translated_on_border [OF f i]
  show "afterTouchMove s tx ty =
        Inr (s\<lparr>move_prevTouch := \<lparr>x = tx, y = ty\<rparr>, redraws := redraws s + 1\<rparr>)"
    using a ne nr t by (simp add: afterTouchMove_def moveCropBox_def Let_def drawCropBox_def)
qed

text \<open>
  C2 describes the code in framed states only. The code tests the translated corners after
  holding them into the overlay, whose size is the whole part of the canvas size plus
  twice the corner radius, against a border polygon built from the size before the canvas
  cut it. With \<^verbatim>\<open>width: 400.5\<close> on an image of 1024 by 512 the right side of the border
  polygon is at 412.5 and positions are held to 412. During a whole-box drag from
  (212, 112):

    \<^item> the pointer-move to (312.5, 112) translates the second corner to (412.5, 62), a
      point on the right side of the border polygon; the move is not rejected, the
      corners stored are the translated ones held to 412;

    \<^item> the pointer-move to (312.25, 112) translates every corner to a point strictly
      inside the boundary; the corners stored are not the translated ones, the two right
      corners are at 412 and not at 412.25.
\<close>

theorem fractional_width_drag:
  "constructor dom0 frac_options = (Inr frac_configured, dom1) \<and>
   onload demo_env wide_image frac_configured = Inr frac_loaded \<and>
   afterTouchStart demo_env frac_loaded 212 112 = Inr frac_picked \<and>
   move_active frac_picked \<and> move_prevTouch frac_picked = \<lparr>x = 212, y = 112\<rparr> \<and>
   translate 100.5 0 (corners frac_picked ! 1) = \<lparr>x = 412.5, y = 62\<rparr> \<and>
   isPointOnBorder (translate 100.5 0 (corners frac_picked ! 1)) (canvasBorderPoints frac_picked) \<and>
   afterTouchMove frac_picked 312.5 112 = Inr frac_edge \<and>
   corners frac_edge \<noteq> corners frac_picked \<and>
   list_all (\<lambda>c. strictly_inside frac_picked (translate 100.25 0 c)) (corners frac_picked) \<and>
   afterTouchMove frac_picked 312.25 112 = Inr frac_inside \<and>
   corners frac_inside \<noteq> map (translate 100.25 0) (corners frac_picked)"
proof -
  have a: "translate 100.5 0 (corners frac_picked ! 1) = \<lparr>x = 412.5, y = 62\<rparr>"
    by (simp add: translate_def frac_picked_fields)
  have b: "isPointOnBorder (translate 100.5 0 (corners frac_picked ! 1)) (canvasBorderPoints frac_picked)"
    by (simp add: frac_picked_fields on_border_polygon translate_def)
  have c: "corners frac_edge \<noteq> corners frac_picked"
    by (simp add: frac_edge_def frac_picked_fields)
  have d: "list_all (\<lambda>c. strictly_inside frac_picked (translate 100.25 0 c)) (corners frac_picked)"
    by (simp add: strictly_inside_def translate_def frac_picked_fields border_polygon_def)
  have e: "corners frac_inside \<noteq> map (translate 100.25 0) (corners frac_picked)"
    by (simp add: frac_inside_def frac_picked_fields translate_def)
  from constructor_frac onload_frac start_frac frac_picked_fields(6,7) a b edge_frac c d inside_frac e
  show ?thesis by simp
qed

section \<open>Dragging one corner (C3)\<close>

text \<open>
  C3, amended. In a state with four corners, one of them selected and no whole-box drag
  active, the corner set that is tested is the box with the selected corner replaced by
  the pointer position. If it fails the minimum-size check, the pointer-move leaves the
  instance as it was, with no redraw. If it does not fail and the pointer position lies in
  the overlay canvas at least the corner radius from its sides, the corner set that is
  stored is the tested one, which passes the minimum-size check; the pointer-move stores
  it and redraws (when the corner radius is not negative: the drawing throws otherwise).
\<close>

theorem corner_drag:
  assumes na: "\<not> move_active s"
    and sel: "0 \<le> selectedCornerIndex s" "selectedCornerIndex s < 4"
    and len: "length (corners s) = 4"
  shows
    "candidate_points s tx ty = (corners s)[nat (selectedCornerIndex s) := \<lparr>x = tx, y = ty\<rparr>] \<and>
     (cropBoxIsTooSmall s (candidate_points s tx ty) = Inr True \<longrightarrow>
        afterTouchMove s tx ty = Inr s) \<and>
     (cropBoxIsTooSmall s (candidate_points s tx ty) \<noteq> Inr True \<longrightarrow> within_limits s tx ty \<longrightarrow>
        cropBoxIsTooSmall s (candidate_points s tx ty) = Inr False \<and>
        (\<forall>s'. afterTouchMove s tx ty = Inr s' \<longrightarrow>
           s' = s\<lparr>corners := candidate_points s tx ty, redraws := redraws s + 1\<rparr>) \<and>
        (0 \<le> cornerRadius s \<longrightarrow>
           afterTouchMove s tx ty =
             Inr (s\<lparr>corners := candidate_points s tx ty, redraws := redraws s + 1\<rparr>)))"
proof -
  have cp: "candidate_points s tx ty = (corners s)[nat (selectedCornerIndex s) := \<lparr>x = tx, y = ty\<rparr>]"
    using sel len by (simp add: candidate_points_update)
  have "4 \<le> length (candidate_points s tx ty)"
    using len by (simp add: candidate_points_def)
  from tooSmall_four [OF this, of s]
  have tf: "cropBoxIsTooSmall s (candidate_points s tx ty) = Inr False"
    if "cropBoxIsTooSmall s (candidate_points s tx ty) \<noteq> Inr True"
    using that by auto
  have n1: "selectedCornerIndex s \<noteq> - 1" using sel by simp
  have ne: "(corners s)[nat (selectedCornerIndex s) := clamp_to_overlay s tx ty] \<noteq> []"
    using len by auto
  have small: "afterTouchMove s tx ty = Inr s"
    if "cropBoxIsTooSmall s (candidate_points s tx ty) = Inr True"
    using that na n1 by (simp add: afterTouchMove_def)
  have stored: "(corners s)[nat (selectedCornerIndex s) := clamp_to_overlay s tx ty] =
                  candidate_points s tx ty"
    if w: "within_limits s tx ty"
  proof -
    from w have "clamp_to_overlay s tx ty = \<lparr>x = tx, y = ty\<rparr>"
      by (simp add: within_limits_def clamp_to_overlay_def)
    then show ?thesis by (simp add: cp)
  qed
  have draw: "afterTouchMove s tx ty =
          drawCropBox (s\<lparr>corners := candidate_points s tx ty\<rparr>)"
    if c: "cropBoxIsTooSmall s (candidate_points s tx ty) = Inr False" and w: "within_limits s tx ty"
    using c na n1 sel len by (simp add: afterTouchMove_def stored [OF w])
  have commit: "afterTouchMove s tx ty =
          Inr (s\<lparr>corners := candidate_points s tx ty, redraws := redraws s + 1\<rparr>)"
    if c: "cropBoxIsTooSmall s (candidate_points s tx ty) = Inr False" and w: "within_limits s tx ty"
      and nr: "0 \<le> cornerRadius s"
    using ne nr by (simp add: draw [OF c w] drawCropBox_def stored [OF w, symmetric])
  have only: "s' = s\<lparr>corners := candidate_points s tx ty, redraws := redraws s + 1\<rparr>"
    if c: "cropBoxIsTooSmall s (candidate_points s tx ty) = Inr False" and w: "within_limits s tx ty"
      and r: "afterTouchMove s tx ty = Inr s'" for s'
    using drawCropBox_Inr [of "s\<lparr>corners := candidate_points s tx ty\<rparr>" s'] r
    by (simp add: draw [OF c w])
  from cp small commit only tf show ?thesis by blast
qed

text \<open>
  In the running example, with the top-left corner selected: the pointer-move to (250, 87)
  would leave a top edge of 62 and changes nothing; the pointer-move to (150, 100) is
  stored.
\<close>

theorem corner_drag_witness:
  "\<not> move_active demo_cornered \<and> selectedCornerIndex demo_cornered = 0 \<and>
   length (corners demo_cornered) = 4 \<and>
   cropBoxIsTooSmall demo_cornered (candidate_points demo_cornered 250 87) = Inr True \<and>
   afterTouchMove demo_cornered 250 87 = Inr demo_cornered \<and>
   cropBoxIsTooSmall demo_cornered (candidate_points demo_cornered 150 100) = Inr False \<and>
   within_limits demo_cornered 150 100 \<and> cornerRadius demo_cornered = 12 \<and>
   afterTouchMove demo_cornered 150 100 = Inr demo_reshaped \<and>
   cropBoxIsTooSmall demo_reshaped (corners demo_reshaped) = Inr False"
proof -
  have h: "\<not> move_active demo_cornered" "0 \<le> selectedCornerIndex demo_cornered"
      "selectedCornerIndex demo_cornered < 4" "length (corners demo_cornered) = 4"
      "selectedCornerIndex demo_cornered = 0"
    by (simp_all add: demo_cornered_fields)
  note t = corner_drag [OF h(1-4)]
  have small: "cropBoxIsTooSmall demo_cornered (candidate_points demo_cornered 250 87) = Inr True"
    by (simp add: candidate_demo cropBoxIsTooSmall_def demo_cornered_fields)
  have big: "cropBoxIsTooSmall demo_cornered (candidate_points demo_cornered 150 100) = Inr False"
    by (simp add: candidate_demo cropBoxIsTooSmall_def demo_cornered_fields)
  have nt: "cropBoxIsTooSmall demo_cornered (candidate_points demo_cornered 150 100) \<noteq> Inr True"
    by (simp add: big)
  have w: "within_limits demo_cornered 150 100"
    by (simp add: within_limits_def demo_cornered_fields)
  have e: "demo_cornered\<lparr>corners := candidate_points demo_cornered 150 100,
             redraws := redraws demo_cornered + 1\<rparr> = demo_reshaped"
    by (simp add: demo_reshaped_def demo_cornered_fields candidate_demo)
  from t [of 250 87] small have r: "afterTouchMove demo_cornered 250 87 = Inr demo_cornered"
    by blast
  have nr: "0 \<le> cornerRadius demo_cornered"
    by (simp add: demo_cornered_fields)
  from t [of 150 100] nt w nr
  have "afterTouchMove demo_cornered 150 100 =
          Inr (demo_cornered\<lparr>corners := candidate_points demo_cornered 150 100,
             redraws := redraws demo_cornered + 1\<rparr>)"
    by blast
  then have m: "afterTouchMove demo_cornered 150 100 = Inr demo_reshaped"
    by (simp only: e)
  have n: "cropBoxIsTooSmall demo_reshaped (corners demo_reshaped) = Inr False"
    by (simp add: cropBoxIsTooSmall_def demo_reshaped_def demo_cornered_fields)
  from h small r big w m n demo_cornered_fields(4) show ?thesis by simp
qed

text \<open>
  C3 fails as stated, in two ways. First, a whole-box drag takes precedence over a
  selected corner. After a pointer-down on the top-left corner and, with no release in
  between, a pointer-down inside the box, a corner is selected and a box drag is active.
  The pointer-move to (213, 162) then moves all four corners and redraws, although the box
  with the top-left corner at (213, 162) fails the minimum-size check. Second, outside the
  limits the position stored is not the position tested: \<^verbatim>\<open>#afterTouchMove\<close> tests the
  box with the pointer position and stores the position held into the overlay, where
  \<^verbatim>\<open>#moveCropBox\<close> tests the positions it stores. With a top edge from 372 to 392, the
  drag of the top-right corner to (1000, 12) passes the test and stores (412, 12), a top
  edge of 40 under the minimum of 100.
\<close>

theorem corner_drag_counterexample:
  "constructor dom0 demo_options = (Inr demo_configured, dom1) \<and>
   onload demo_env demo_image demo_configured = Inr demo_loaded \<and>
   afterTouchStart demo_env demo_loaded 112 87 = Inr demo_cornered \<and>
   afterTouchStart demo_env demo_cornered 212 162 = Inr demo_both \<and>
   selectedCornerIndex demo_both = 0 \<and>
   cropBoxIsTooSmall demo_both (candidate_points demo_both 213 162) = Inr True \<and>
   afterTouchMove demo_both 213 162 = Inr demo_shifted \<and>
   corners demo_shifted \<noteq> corners demo_both \<and>
   redraws demo_shifted \<noteq> redraws demo_both \<and>
   constructor dom0 narrow_options = (Inr narrow_configured, dom1) \<and>
   onload demo_env demo_image narrow_configured = Inr narrow_loaded \<and>
   afterTouchStart demo_env narrow_loaded 392 12 = Inr narrow_selected \<and>
   selectedCornerIndex narrow_selected = 1 \<and> \<not> move_active narrow_selected \<and>
   \<not> within_limits narrow_selected 1000 12 \<and>
   cropBoxIsTooSmall narrow_selected (candidate_points narrow_selected 1000 12) = Inr False \<and>
   afterTouchMove narrow_selected 1000 12 = Inr narrow_moved \<and>
   corners narrow_moved \<noteq> corners narrow_selected \<and>
   cropBoxIsTooSmall narrow_moved (corners narrow_moved) = Inr True"
proof -
  have d: "cropBoxIsTooSmall demo_both (candidate_points demo_both 213 162) = Inr True"
    by (simp add: candidate_both candidate_demo cropBoxIsTooSmall_def demo_both_fields)
  have e: "corners demo_shifted \<noteq> corners demo_both" "redraws demo_shifted \<noteq> redraws demo_both"
    by (simp_all add: demo_shifted_def demo_both_fields demo_cornered_fields)
  have a: "cropBoxIsTooSmall narrow_selected (candidate_points narrow_selected 1000 12) = Inr False"
    by (simp add: candidate_narrow cropBoxIsTooSmall_def narrow_selected_fields)
  have b: "corners narrow_moved \<noteq> corners narrow_selected"
    by (simp add: narrow_moved_def narrow_selected_fields)
  have c: "cropBoxIsTooSmall narrow_moved (corners narrow_moved) = Inr True"
    by (simp add: cropBoxIsTooSmall_def narrow_moved_def narrow_selected_fields)
  have w: "\<not> within_limits narrow_selected 1000 12"
    by (simp add: within_limits_def narrow_selected_fields)
  from corner_demo both_demo shift_demo constructor_demo onload_demo d e demo_both_fields(2)
    constructor_narrow onload_narrow select_narrow move_narrow a b c w narrow_selected_fields(7,8)
  show ?thesis by simp
qed

section \<open>The canvas size from a width (C4)\<close>

text \<open>
  No size field of a constructed instance holds 0: the constructor stores a size option
  only when it is truthy.
\<close>

lemma keep_truthy_nonzero: "keep_truthy v \<noteq> Some 0"
  by (cases v) (simp_all add: keep_truthy_def truthy_def)

lemma constructor_stores_nonzero:
  assumes "constructor d options = (Inr s, d')"
  shows "width s \<noteq> Some 0 \<and> height s \<noteq> Some 0 \<and> maxWidth s \<noteq> Some 0 \<and>
         maxHeight s \<noteq> Some 0"
proof -
  from assms have "width s = keep_truthy (opt_width options)"
    "height s = keep_truthy (opt_height options)"
    "maxWidth s = keep_truthy (opt_maxWidth options)"
    "maxHeight s = keep_truthy (opt_maxHeight options)"
    by (auto simp: constructor_def Let_def split: if_splits prod.splits)
  then show ?thesis by (simp add: keep_truthy_nonzero)
qed

text \<open>
  Where the quotient and the product are doubles the size is the one C4 gives: with
  \<^verbatim>\<open>width: 400\<close> and an image of 800 by 600 the canvas is 400 by 300, and with a
  maxHeight of 150 in addition it is 200 by 150.
\<close>

lemma width_400_canvas:
  "canvas_size_is demo_env (initializeCanvasDimensions demo_env demo_image demo_configured) 400 300 \<and>
   canvas_size_is demo_env
     (initializeCanvasDimensions demo_env demo_image (demo_configured\<lparr>maxHeight := Some 150\<rparr>))
     200 150"
proof -
  have q: "double (1 / 4) = 1 / 4"
    using double_exact [of "1 / 4" 1 "- 2"] by (simp add: powr_neg_numeral)
  have "resolve_size demo_image (demo_configured\<lparr>maxHeight := Some 150\<rparr>) = (200, 150)"
    by (simp add: resolve_size_def demo_image_def demo_configured_def fresh_def truthy_def num_def
          exact_doubles q double_numeral)
  then show ?thesis
    by (simp add: canvas_size_is_def initializeCanvasDimensions_def resolve_demo)
       (simp add: demo_env_def double_numeral to_canvas_size_numeral)
qed

text \<open>
  C4 gives the height the code aims at, and the code misses it by rounding. The code
  computes \<^verbatim>\<open>Math.floor((width / naturalWidth) * naturalHeight)\<close>. With \<^verbatim>\<open>width: 164\<close>
  and an image of 800 by 600, C4 gives the height \<open>floor (164 * 600 / 800) = 123\<close>. The
  double nearest to 164 / 800 is below 164 / 800, and its product with 600 is rounded to a
  double below 123: the canvas is 164 by 122.
\<close>

theorem width_164_canvas:
  "constructor dom0 thin_options = (Inr thin_configured, dom1) \<and>
   width thin_configured = Some 164 \<and> height thin_configured = None \<and>
   maxHeight thin_configured = None \<and>
   \<lfloor>164 * naturalHeight demo_image / naturalWidth demo_image\<rfloor> = 123 \<and>
   double (164 / naturalWidth demo_image) < 164 / 800 \<and>
   double (double (164 / naturalWidth demo_image) * naturalHeight demo_image) < 123 \<and>
   resolve_size demo_image thin_configured = (164, 122) \<and>
   onload demo_env demo_image thin_configured = Inr thin_loaded \<and>
   canvas_size_is demo_env thin_loaded 164 122"
proof -
  have a: "width thin_configured = Some 164" "height thin_configured = None"
      "maxHeight thin_configured = None"
    by (simp_all add: thin_configured_def fresh_def)
  have n: "naturalWidth demo_image = 800" "naturalHeight demo_image = 600"
    by (simp_all add: demo_image_def)
  have b: "\<lfloor>164 * naturalHeight demo_image / naturalWidth demo_image\<rfloor> = 123"
    by (simp add: n)
  have c: "double (164 / naturalWidth demo_image) < 164 / 800"
    unfolding n rounded_quotient by simp
  have d: "double (double (164 / naturalWidth demo_image) * naturalHeight demo_image) < 123"
    unfolding n rounded_quotient rounded_product by simp
  have e: "canvas_size_is demo_env thin_loaded 164 122"
    by (simp add: canvas_size_is_def thin_loaded_def demo_env_def)
  from constructor_thin a b c d resolve_thin onload_thin e show ?thesis by simp
qed

section \<open>Conflicting options (C5)\<close>

text \<open>
  C5, amended. The constructor fails, with the document unchanged, exactly when both
  colour keys are present in the options, or width and maxWidth are both given and not
  zero, or height and maxHeight are both given and not zero; for every other option set it
  returns an instance.
\<close>

theorem constructor_conflicts:
  "((has_key (opt_backdropColor options) \<and> has_key (opt_cropBoxColor options)) \<or>
     (truthy (opt_width options) \<and> truthy (opt_maxWidth options)) \<or>
     (truthy (opt_height options) \<and> truthy (opt_maxHeight options)) \<longrightarrow>
       (\<exists>msg. constructor d options = (Inl (Error msg), d))) \<and>
    (\<not> ((has_key (opt_backdropColor options) \<and> has_key (opt_cropBoxColor options)) \<or>
        (truthy (opt_width options) \<and> truthy (opt_maxWidth options)) \<or>
        (truthy (opt_height options) \<and> truthy (opt_maxHeight options))) \<longrightarrow>
       (\<exists>s d'. constructor d options = (Inr s, d')))"
  by (auto simp: constructor_def Let_def split: prod.splits)

text \<open>
  Both colours, and width with maxWidth, are refused with the document as it was; no
  options at all are accepted.
\<close>

theorem constructor_conflicts_witness:
  "constructor dom0 both_colours =
     (Inl (Error ''Only one of backdropColor or cropBoxColor is to be set.''), dom0) \<and>
   constructor dom0 both_widths =
     (Inl (Error ''Only one of width or maxWidth is to be set.''), dom0) \<and>
   constructor dom0 no_options = (Inr fresh, dom1)"
proof -
  from constructor_conflicts [of both_colours dom0]
  have "\<exists>msg. constructor dom0 both_colours = (Inl (Error msg), dom0)"
    by (simp add: both_colours_def no_options_def has_key_def)
  then have a: "constructor dom0 both_colours =
     (Inl (Error ''Only one of backdropColor or cropBoxColor is to be set.''), dom0)"
    by (auto simp: constructor_def both_colours_def no_options_def has_key_def)
  from constructor_conflicts [of both_widths dom0]
  have "\<exists>msg. constructor dom0 both_widths = (Inl (Error msg), dom0)"
    by (simp add: both_widths_def no_options_def truthy_def)
  then have b: "constructor dom0 both_widths =
     (Inl (Error ''Only one of width or maxWidth is to be set.''), dom0)"
    by (auto simp: constructor_def both_widths_def no_options_def has_key_def truthy_def)
  from constructor_conflicts [of no_options dom0]
  have "\<exists>s d'. constructor dom0 no_options = (Inr s, d')"
    by (simp add: no_options_def truthy_def has_key_def)
  with a b constructor_no_options show ?thesis by simp
qed

text \<open>
  C5 fails as stated: a width of 0 together with a maxWidth is accepted, and the width is
  left unset.
\<close>

theorem zero_width_accepted:
  "opt_width zero_width = Some 0 \<and> opt_maxWidth zero_width = Some 500 \<and>
   constructor dom0 zero_width = (Inr (fresh\<lparr>maxWidth := Some 500\<rparr>), dom1)"
  by (subst constructor_accepts)
     (simp_all add: dom0_def zero_width_def no_options_def has_key_def truthy_def keep_truthy_def
        or_default_def given_value_def fresh_def dom1_def appendChild_def)

section \<open>The crop request (C6)\<close>

lemma edge_length_horizontal: "y a = y b \<Longrightarrow> edge_length a b = \<bar>x b - x a\<bar>"
  by (simp add: edge_length_def)

lemma edge_length_vertical: "x a = x b \<Longrightarrow> edge_length a b = \<bar>y b - y a\<bar>"
  by (simp add: edge_length_def)

text \<open>
  On a canvas of width or height 0 every crop throws: \<^verbatim>\<open>getImageData\<close> refuses
  the empty rectangle. A load leaves such a canvas when the size rounds down to 0, as for
  \<^verbatim>\<open>width: 1\<close> and the image of 1024 by 512.
\<close>

lemma crop_of_empty_canvas:
  assumes "canvas_width s = 0 \<or> canvas_height s = 0"
  shows "crop e s d = (Inl IndexSizeError, s, d)" and "getBlob e s d = (Inl IndexSizeError, s, d)"
    and "getFile e s d = (Inl IndexSizeError, s, d)"
  using assms by (auto simp: crop_def getBlob_def getFile_def applyPerspectiveTransform_def)

lemma flat_canvas:
  "canvas_height (initializeCanvasDimensions demo_env wide_image (fresh\<lparr>width := Some 1\<rparr>)) = 0"
proof -
  have q: "double (1 / 1024) = 1 / 1024"
    using double_exact [of "1 / 1024" 1 "- 10"] by (simp add: powr_neg_numeral)
  have "resolve_size wide_image (fresh\<lparr>width := Some 1\<rparr>) = (1, 0)"
    by (simp add: resolve_size_def wide_image_def fresh_def truthy_def num_def q exact_doubles)
  then show ?thesis
    by (simp add: initializeCanvasDimensions_fields to_canvas_size_def double_def)
qed

text \<open>
  C6. Let the canvas have a width and a height that are not 0, and let the device pixel
  ratio be positive. For the current corners \<open>p0, p1, p2, p3\<close>, the crop asks for an
  output of width \<open>w\<close>, the larger of the lengths of the top edge \<open>p0 p1\<close> and the bottom
  edge \<open>p3 p2\<close> times the device pixel ratio, and height \<open>h\<close>, the larger of the lengths of
  the left edge \<open>p0 p3\<close> and the right edge \<open>p1 p2\<close> times the device pixel ratio; the
  four corners, in backing-store coordinates and in their order, are mapped to \<open>(0, 0)\<close>,
  \<open>(w, 0)\<close>, \<open>(w, h)\<close>, \<open>(0, h)\<close>, and the image is resampled at size \<open>w\<close> by \<open>h\<close>.
\<close>

theorem crop_request:
  assumes "corners s = [p0, p1, p2, p3]"
    and "0 < canvas_width s" and "0 < canvas_height s" and "0 < devicePixelRatio e"
  shows
    "(let w = max (edge_length p0 p1) (edge_length p3 p2) * devicePixelRatio e;
          h = max (edge_length p0 p3) (edge_length p1 p2) * devicePixelRatio e;
          r = \<lparr>dsize_width = w, dsize_height = h,
               srcTri = [fst (to_backing e s p0), snd (to_backing e s p0),
                         fst (to_backing e s p1), snd (to_backing e s p1),
                         fst (to_backing e s p2), snd (to_backing e s p2),
                         fst (to_backing e s p3), snd (to_backing e s p3)],
               dstTri = [0, 0, w, 0, w, h, 0, h],
               tempCanvas = next_node d\<rparr>
      in crop e s d = (Inr r, s, d\<lparr>next_node := next_node d + 1\<rparr>) \<and>
         getBlob e s d = (Inr r, s, d\<lparr>next_node := next_node d + 1\<rparr>) \<and>
         getFile e s d = (Inr (''cropped-image.png'', r), s, d\<lparr>next_node := next_node d + 1\<rparr>) \<and>
         correspondence r =
           [(to_backing e s p0, (0, 0)), (to_backing e s p1, (w, 0)),
            (to_backing e s p2, (w, h)), (to_backing e s p3, (0, h))])"
  using assms
  by (simp add: crop_def getBlob_def getFile_def applyPerspectiveTransform_def createElement_def
        Let_def edge_length_def to_backing_def correspondence_def power2_commute max.commute)

text \<open>
  The box of the running example, 200 by 150 on the display, is cropped to 400 by 300.
\<close>

theorem crop_request_witness:
  "corners demo_loaded =
     [\<lparr>x = 112, y = 87\<rparr>, \<lparr>x = 312, y = 87\<rparr>, \<lparr>x = 312, y = 237\<rparr>, \<lparr>x = 112, y = 237\<rparr>] \<and>
   canvas_width demo_loaded = 800 \<and> canvas_height demo_loaded = 600 \<and>
   devicePixelRatio demo_env = 2 \<and>
   crop demo_env demo_loaded dom1 =
     (Inr \<lparr>dsize_width = 400, dsize_height = 300,
           srcTri = [200, 150, 600, 150, 600, 450, 200, 450],
           dstTri = [0, 0, 400, 0, 400, 300, 0, 300], tempCanvas = 5\<rparr>,
      demo_loaded, dom1\<lparr>next_node := 6\<rparr>) \<and>
   correspondence
     \<lparr>dsize_width = 400, dsize_height = 300,
      srcTri = [200, 150, 600, 150, 600, 450, 200, 450],
      dstTri = [0, 0, 400, 0, 400, 300, 0, 300], tempCanvas = 5\<rparr> =
     [((200, 150), (0, 0)), ((600, 150), (400, 0)), ((600, 450), (400, 300)),
      ((200, 450), (0, 300))]"
proof -
  have c: "corners demo_loaded =
     [\<lparr>x = 112, y = 87\<rparr>, \<lparr>x = 312, y = 87\<rparr>, \<lparr>x = 312, y = 237\<rparr>, \<lparr>x = 112, y = 237\<rparr>]"
    by (simp add: demo_loaded_def)
  have b: "to_backing demo_env demo_loaded \<lparr>x = 112, y = 87\<rparr> = (200, 150)"
      "to_backing demo_env demo_loaded \<lparr>x = 312, y = 87\<rparr> = (600, 150)"
      "to_backing demo_env demo_loaded \<lparr>x = 312, y = 237\<rparr> = (600, 450)"
      "to_backing demo_env demo_loaded \<lparr>x = 112, y = 237\<rparr> = (200, 450)"
    by (simp_all add: to_backing_def demo_env_def demo_loaded_def demo_configured_def fresh_def)
  have e: "devicePixelRatio demo_env = 2" "next_node dom1 = 5"
    by (simp_all add: demo_env_def dom1_def)
  have p: "canvas_width demo_loaded = 800" "canvas_height demo_loaded = 600"
    by (simp_all add: demo_loaded_def)
  have h: "0 < canvas_width demo_loaded" "0 < canvas_height demo_loaded"
      "0 < devicePixelRatio demo_env"
    by (simp_all add: p e)
  from crop_request [OF c h, of dom1] show ?thesis
    by (simp add: Let_def edge_length_horizontal edge_length_vertical b e c p)
qed

section \<open>The initial corners (C7)\<close>

text \<open>
  C7 gives the corners the code aims at, and the code misses them where the canvas cuts
  its size. \<^verbatim>\<open>#initializeCorners\<close> takes the display size of the canvas to be
  \<^verbatim>\<open>canvas.width / devicePixelRatio\<close>, and \<^verbatim>\<open>canvas.width\<close> is the whole part of the
  display size times the device pixel ratio. On a device with pixel ratio 2.5, with
  \<^verbatim>\<open>width: 401\<close> and an image of 1024 by 512, the canvas is shown 401 pixels wide, its
  backing store is 1002 pixels wide (not 1002.5), and the display size the corners are
  computed from is 1002 / 2.5 = 400.8. Without initial corners the two right corners are
  at 412.8, and the border polygon has them at 413. With the initial corners at 0 and 100
  percent the two right corners are at 412.8 again, where C7 gives
  \<open>(100 / 100) * 401 + 12 = 413\<close>.
\<close>

theorem hidpi_default_corners:
  "constructor dom0 hidpi_options = (Inr hidpi_configured, dom1) \<and>
   initialCorners hidpi_configured = None \<and>
   onload hidpi_env wide_image hidpi_configured = Inr hidpi_loaded \<and>
   canvas_style_width hidpi_loaded = Some 401 \<and> canvas_width hidpi_loaded = 1002 \<and>
   canvasBorderPoints hidpi_loaded =
     [\<lparr>x = 12, y = 12\<rparr>, \<lparr>x = 413, y = 12\<rparr>, \<lparr>x = 413, y = 212\<rparr>, \<lparr>x = 12, y = 212\<rparr>] \<and>
   corners hidpi_loaded =
     [\<lparr>x = 12, y = 12\<rparr>, \<lparr>x = 412.8, y = 12\<rparr>, \<lparr>x = 412.8, y = 212\<rparr>, \<lparr>x = 12, y = 212\<rparr>] \<and>
   corners hidpi_loaded \<noteq> canvasBorderPoints hidpi_loaded \<and>
   corners (initializeCorners hidpi_env
              (Some [\<lparr>x = 0, y = 0\<rparr>, \<lparr>x = 100, y = 0\<rparr>, \<lparr>x = 100, y = 100\<rparr>, \<lparr>x = 0, y = 100\<rparr>])
              (initializeCanvasDimensions hidpi_env wide_image hidpi_configured)) =
     [\<lparr>x = 12, y = 12\<rparr>, \<lparr>x = 412.8, y = 12\<rparr>, \<lparr>x = 412.8, y = 212\<rparr>, \<lparr>x = 12, y = 212\<rparr>] \<and>
   (100 / 100) * 401 + cornerRadius hidpi_loaded = 413"
proof -
  have a: "initialCorners hidpi_configured = None"
    by (simp add: hidpi_configured_def fresh_def)
  have b: "canvas_style_width hidpi_loaded = Some 401" "canvas_width hidpi_loaded = 1002"
    "canvasBorderPoints hidpi_loaded =
       [\<lparr>x = 12, y = 12\<rparr>, \<lparr>x = 413, y = 12\<rparr>, \<lparr>x = 413, y = 212\<rparr>, \<lparr>x = 12, y = 212\<rparr>]"
    "corners hidpi_loaded =
       [\<lparr>x = 12, y = 12\<rparr>, \<lparr>x = 412.8, y = 12\<rparr>, \<lparr>x = 412.8, y = 212\<rparr>, \<lparr>x = 12, y = 212\<rparr>]"
    "cornerRadius hidpi_loaded = 12"
    by (simp_all add: hidpi_loaded_def hidpi_configured_def fresh_def)
  have c: "corners hidpi_loaded \<noteq> canvasBorderPoints hidpi_loaded"
    by (simp add: b)
  have d: "corners (initializeCorners hidpi_env
              (Some [\<lparr>x = 0, y = 0\<rparr>, \<lparr>x = 100, y = 0\<rparr>, \<lparr>x = 100, y = 100\<rparr>, \<lparr>x = 0, y = 100\<rparr>])
              (initializeCanvasDimensions hidpi_env wide_image hidpi_configured)) =
     [\<lparr>x = 12, y = 12\<rparr>, \<lparr>x = 412.8, y = 12\<rparr>, \<lparr>x = 412.8, y = 212\<rparr>, \<lparr>x = 12, y = 212\<rparr>]"
    by (simp add: dimensions_hidpi initializeCorners_def)
       (simp add: hidpi_configured_def fresh_def hidpi_env_def)
  from constructor_hidpi a onload_hidpi b c d show ?thesis by simp
qed

section \<open>Teardown (C8)\<close>

lemma removeEventListener_other:
  "\<forall>l \<in> set (listeners d ov). l \<noteq> (ty, cb) \<Longrightarrow> removeEventListener ov ty cb d = d"
  by (simp add: removeEventListener_def filter_id_conv)

lemma destroy_registered:
  assumes "listeners d (overlayCanvas s) = registered k"
  shows "destroy s d = removeChild (parent s) (relativePostionedDiv s) d"
  using assms
  by (simp add: destroy_def removeEventListener_other registered_def)

text \<open>
  C8 fails on the code. After \<^verbatim>\<open>new Scanner(options)\<close> on an overlay element that had no
  listeners, \<^verbatim>\<open>destroy()\<close> returns normally and detaches the subtree from the parent,
  but the overlay canvas keeps all six listeners the constructor registered: they were
  registered as the results of \<^verbatim>\<open>.bind(this)\<close>, and \<^verbatim>\<open>removeEventListener\<close> is given
  the methods themselves.
\<close>

theorem destroy_keeps_listeners:
  assumes c: "constructor d options = (Inr s, d1)"
    and fr: "listeners d (overlayCanvas s) = []"
  shows "\<exists>d2. destroy s d1 = Inr d2 \<and>
           listeners d2 (overlayCanvas s) = registered (next_function d) \<and>
           listeners d2 (overlayCanvas s) = listeners d1 (overlayCanvas s) \<and>
           relativePostionedDiv s \<notin> set (children d2 (parent s))"
proof -
  from c have nc: "\<not> (has_key (opt_backdropColor options) \<and> has_key (opt_cropBoxColor options))"
    "\<not> (truthy (opt_width options) \<and> truthy (opt_maxWidth options))"
    "\<not> (truthy (opt_height options) \<and> truthy (opt_maxHeight options))"
    by (auto simp: constructor_def split: if_splits)
  from c nc have ov: "overlayCanvas s = next_node d + 3"
    by (auto simp: constructor_def createElement_def Let_def split: prod.splits)
  with fr have "listeners d (next_node d + 3) = []" by simp
  from constructor_accepts [OF nc this] c
  have s: "parent s = opt_parent options" "relativePostionedDiv s = next_node d + 2"
    and d1: "d1 = appendChild (opt_parent options) (next_node d + 2)
       (appendChild (next_node d + 2) (next_node d + 3)
         (appendChild (next_node d + 2) (next_node d + 1)
           (d\<lparr>next_node := next_node d + 4, next_function := next_function d + 6,
              listeners := (listeners d)(next_node d + 3 := registered (next_function d))\<rparr>)))"
    by auto
  have l: "listeners d1 (overlayCanvas s) = registered (next_function d)"
    by (simp add: d1 ov appendChild_def)
  have ch: "relativePostionedDiv s \<in> set (children d1 (parent s))"
    by (simp add: d1 s appendChild_def)
  from destroy_registered [OF l] ch l show ?thesis by (simp add: removeChild_def)
qed

text \<open>
  \<^verbatim>\<open>new Scanner({parent})\<close> followed by \<^verbatim>\<open>destroy()\<close>.
\<close>

theorem destroy_keeps_listeners_witness:
  "constructor dom0 no_options = (Inr fresh, dom1) \<and> listeners dom0 (overlayCanvas fresh) = [] \<and>
   destroy fresh dom1 = Inr dom2 \<and>
   listeners dom2 (overlayCanvas fresh) =
     [(touchstart, Bound HandleTouchStart 0), (touchmove, Bound HandleTouchMove 1),
      (touchend, Bound HandleTouchEnd 2), (mousedown, Bound HandleMouseDown 3),
      (mousemove, Bound HandleMouseMove 4), (mouseup, Bound HandleTouchEnd 5)] \<and>
   children dom2 (parent fresh) = []"
proof -
  have f: "listeners dom0 (overlayCanvas fresh) = []" by (simp add: dom0_def)
  from destroy_keeps_listeners [OF constructor_no_options f]
  obtain d2 where d: "destroy fresh dom1 = Inr d2"
    and l: "listeners d2 (overlayCanvas fresh) = registered (next_function dom0)" by blast
  have l1: "listeners dom1 (overlayCanvas fresh) = registered 0"
    by (simp add: dom1_def fresh_def)
  from destroy_registered [OF l1] have e: "destroy fresh dom1 = Inr dom2"
    by (simp add: removeChild_def fresh_def dom1_def dom2_def fun_upd_twist)
  with d have "d2 = dom2" by simp
  with l have "listeners dom2 (overlayCanvas fresh) = registered 0" by (simp add: dom0_def)
  then show ?thesis
    using constructor_no_options f e by (simp add: registered_def) (simp add: dom2_def fresh_def)
qed

section \<open>Loading again (C9)\<close>




section \<open>Cropping changes nothing (C10)\<close>

text \<open>
  C10. \<^verbatim>\<open>crop()\<close>, \<^verbatim>\<open>getBlob()\<close>, \<^verbatim>\<open>getFile()\<close> and \<^verbatim>\<open>getCanvas()\<close> return the
  instance as it was: the corners, the interaction state and the canvas dimensions with
  every other field.
\<close>

theorem crop_leaves_instance:
  "fst (snd (crop e s d)) = s \<and> fst (snd (getBlob e s d)) = s \<and>
   fst (snd (getFile e s d)) = s \<and> fst (snd (getCanvas s d)) = s"
  by (simp add: crop_def getBlob_def getFile_def getCanvas_def split: prod.splits sum.splits)

end
